theory Spec2Isabelle
  imports Complex_Main
begin

section \<open>Python dictionaries\<close>

text \<open>
  A Python \<open>dict\<close> keeps its keys in insertion order and holds every key once. It is an
  association list here: \<open>d[k] = v\<close> overwrites the value in place when \<open>k\<close> is
  present and appends the pair otherwise, \<open>k in d\<close> and \<open>d.get(k)\<close> read the first
  pair of the key, \<open>d.values()\<close> lists the values in order.
\<close>

type_synonym ('k, 'v) dict = "('k \<times> 'v) list"

fun dict_set :: "('k, 'v) dict \<Rightarrow> 'k \<Rightarrow> 'v \<Rightarrow> ('k, 'v) dict" where
  "dict_set [] k v = [(k, v)]"
| "dict_set ((k', v') # d) k v = (if k' = k then (k, v) # d else (k', v') # dict_set d k v)"

definition dict_get :: "('k, 'v) dict \<Rightarrow> 'k \<Rightarrow> 'v option" where
  "dict_get d k = map_of d k"

definition dict_in :: "'k \<Rightarrow> ('k, 'v) dict \<Rightarrow> bool" where
  "dict_in k d = (dict_get d k \<noteq> None)"

definition dict_values :: "('k, 'v) dict \<Rightarrow> 'v list" where
  "dict_values d = map snd d"

definition dict_keys :: "('k, 'v) dict \<Rightarrow> 'k list" where
  "dict_keys d = map fst d"

text \<open>The number of entries a dictionary holds for one key.\<close>

definition dict_entries :: "('k, 'v) dict \<Rightarrow> 'k \<Rightarrow> nat" where
  "dict_entries d k = length (filter (\<lambda>e. fst e = k) d)"

section \<open>The random source (module \<open>random\<close>)\<close>

text \<open>
  The program draws from Python's global random generator. The generator is an explicit
  state: a sequence of raw draws and the position of the next one. \<open>random.random()\<close>
  returns a float \<open>k / 2^53\<close> with \<open>0 \<le> k < 2^53\<close>; the library's integer primitive returns
  a number below its bound. Every result the library can return is the result for some
  sequence of draws, so a statement about all sources is a statement about all runs.
\<close>

record rng =
  pos :: nat
  src :: "nat \<Rightarrow> nat"

definition next_draw :: "rng \<Rightarrow> nat \<times> rng" where
  "next_draw r = (src r (pos r), r\<lparr>pos := pos r + 1\<rparr>)"

definition random_random :: "rng \<Rightarrow> real \<times> rng" where
  "random_random r = (case next_draw r of (d, r') \<Rightarrow> (real (d mod 2 ^ 53) / 2 ^ 53, r'))"

section \<open>game_models.py\<close>

definition FLIGHT_CAPACITY :: int where
  "FLIGHT_CAPACITY = 100"

definition OVERBOOKING_PENALTY_PER_SEAT :: int where
  "OVERBOOKING_PENALTY_PER_SEAT = 6000"

definition UNDERBOOKING_PENALTY_PER_SEAT :: int where
  "UNDERBOOKING_PENALTY_PER_SEAT = 3000"

definition CANCELLATION_PROBABILITY :: real where
  "CANCELLATION_PROBABILITY = 1 / 10"

record Passenger =
  profession :: string
  sex :: string
  age_group :: string
  region :: string

record BookingRequest =
  booking_id :: int
  volume :: int
  price_per_seat :: int
  anchor_type :: string
  anchor_value :: string
  passengers :: "Passenger list"

record Player =
  player_id :: string
  name :: string
  accepted_bookings :: "BookingRequest list"
  final_revenue :: int
  overbooking_penalty :: int
  underbooking_penalty :: int
  total_score :: int
  choice_history :: "(int, string) dict"
  show_up_history :: "(int, int) dict"

record GameRoom =
  room_id :: string
  host_id :: string
  players :: "(string, Player) dict"
  bookings :: "BookingRequest list"
  current_round :: int
  game_status :: string

text \<open>\<open>Player(player_id=..., name=...)\<close> with the defaults of the class.\<close>

definition new_Player :: "string \<Rightarrow> string \<Rightarrow> Player" where
  "new_Player pid nm =
     \<lparr>player_id = pid, name = nm, accepted_bookings = [], final_revenue = 0,
      overbooking_penalty = 0, underbooking_penalty = 0, total_score = 0,
      choice_history = [], show_up_history = []\<rparr>"

text \<open>\<open>GameRoom(room_id=..., host_id=...)\<close> with the defaults of the class.\<close>

definition new_GameRoom :: "string \<Rightarrow> string \<Rightarrow> GameRoom" where
  "new_GameRoom rid hid =
     \<lparr>room_id = rid, host_id = hid, players = [], bookings = [], current_round = 0,
      game_status = ''WAITING''\<rparr>"

definition add_player :: "GameRoom \<Rightarrow> string \<Rightarrow> string \<Rightarrow> GameRoom" where
  "add_player room pid nm =
     (if \<not> dict_in pid (players room)
      then room\<lparr>players := dict_set (players room) pid (new_Player pid nm)\<rparr>
      else room)"

definition get_current_booking :: "GameRoom \<Rightarrow> BookingRequest option" where
  "get_current_booking room =
     (if 0 \<le> current_round room \<and> current_round room < int (length (bookings room))
      then Some (bookings room ! nat (current_round room))
      else None)"

subsection \<open>Scoring\<close>

text \<open>
  The inner loop of \<open>calculate_final_score\<close>: one draw per passenger of a booking, the
  counter \<open>passengers_showed_up\<close> as accumulator.
\<close>

fun count_showed_up :: "Passenger list \<Rightarrow> int \<Rightarrow> rng \<Rightarrow> int \<times> rng" where
  "count_showed_up [] passengers_showed_up r = (passengers_showed_up, r)"
| "count_showed_up (passenger # rest) passengers_showed_up r =
     (case random_random r of (u, r') \<Rightarrow>
        count_showed_up rest
          (if u > CANCELLATION_PROBABILITY then passengers_showed_up + 1
           else passengers_showed_up) r')"

text \<open>
  The outer loop, over \<open>player.accepted_bookings\<close>; its state is the player (whose
  \<open>show_up_history\<close> it writes), \<open>total_showed_up\<close> and \<open>total_revenue\<close>.
\<close>

fun score_bookings ::
  "BookingRequest list \<Rightarrow> Player \<Rightarrow> int \<Rightarrow> int \<Rightarrow> rng \<Rightarrow> (Player \<times> int \<times> int) \<times> rng" where
  "score_bookings [] player total_showed_up total_revenue r =
     ((player, total_showed_up, total_revenue), r)"
| "score_bookings (booking # rest) player total_showed_up total_revenue r =
     (case count_showed_up (passengers booking) 0 r of (passengers_showed_up, r') \<Rightarrow>
        score_bookings rest
          (player\<lparr>show_up_history :=
             dict_set (show_up_history player) (booking_id booking) passengers_showed_up\<rparr>)
          (total_showed_up + passengers_showed_up)
          (total_revenue + passengers_showed_up * price_per_seat booking) r')"

definition calculate_final_score :: "Player \<Rightarrow> rng \<Rightarrow> Player \<times> rng" where
  "calculate_final_score player r =
     (case score_bookings (accepted_bookings player) player 0 0 r of
        ((p1, total_showed_up, total_revenue), r') \<Rightarrow>
          let p2 = p1\<lparr>final_revenue := total_revenue\<rparr>;
              p3 = (if total_showed_up > FLIGHT_CAPACITY
                    then p2\<lparr>overbooking_penalty :=
                           (total_showed_up - FLIGHT_CAPACITY) * OVERBOOKING_PENALTY_PER_SEAT\<rparr>
                    else if total_showed_up < FLIGHT_CAPACITY
                    then p2\<lparr>underbooking_penalty :=
                           (FLIGHT_CAPACITY - total_showed_up) * UNDERBOOKING_PENALTY_PER_SEAT\<rparr>
                    else p2)
          in (p3\<lparr>total_score :=
                   final_revenue p3 - overbooking_penalty p3 - underbooking_penalty p3\<rparr>, r'))"

text \<open>The loop of \<open>end_game\<close> over \<open>self.players.values()\<close>, in dictionary order.\<close>

fun score_players :: "(string, Player) dict \<Rightarrow> rng \<Rightarrow> (string, Player) dict \<times> rng" where
  "score_players [] r = ([], r)"
| "score_players ((k, player) # rest) r =
     (case calculate_final_score player r of (player', r') \<Rightarrow>
        (case score_players rest r' of (rest', r'') \<Rightarrow> ((k, player') # rest', r'')))"

definition end_game :: "GameRoom \<Rightarrow> rng \<Rightarrow> GameRoom \<times> rng" where
  "end_game room r =
     (case score_players (players (room\<lparr>game_status := ''FINISHED''\<rparr>)) r of
        (ps, r') \<Rightarrow> (room\<lparr>game_status := ''FINISHED'', players := ps\<rparr>, r'))"

subsection \<open>Rounds and decisions\<close>

text \<open>
  The body of the loop of \<open>advance_to_next_round\<close>: a player who is not the host and has
  no entry for the booking gets \<open>"Rejected"\<close>.
\<close>

definition log_rejection :: "string \<Rightarrow> BookingRequest \<Rightarrow> Player \<Rightarrow> Player" where
  "log_rejection host current_booking player =
     (if player_id player \<noteq> host
         \<and> \<not> dict_in (booking_id current_booking) (choice_history player)
      then player\<lparr>choice_history :=
             dict_set (choice_history player) (booking_id current_booking) ''Rejected''\<rparr>
      else player)"

definition log_rejections :: "GameRoom \<Rightarrow> GameRoom" where
  "log_rejections room =
     (case get_current_booking room of
        Some current_booking \<Rightarrow>
          room\<lparr>players :=
            map (\<lambda>(k, player). (k, log_rejection (host_id room) current_booking player))
              (players room)\<rparr>
      | None \<Rightarrow> room)"

definition advance_to_next_round :: "GameRoom \<Rightarrow> rng \<Rightarrow> GameRoom \<times> rng" where
  "advance_to_next_round room r =
     (let room1 = log_rejections room in
      if current_round room1 < int (length (bookings room1))
      then (let room2 = room1\<lparr>current_round := current_round room1 + 1\<rparr> in
            if current_round room2 = int (length (bookings room2))
            then end_game room2 r
            else (room2, r))
      else (room1, r))"

definition player_accept_booking :: "GameRoom \<Rightarrow> string \<Rightarrow> GameRoom" where
  "player_accept_booking room pid =
     (case (dict_get (players room) pid, get_current_booking room) of
        (Some player, Some current_booking) \<Rightarrow>
          room\<lparr>players := dict_set (players room) pid
            (player\<lparr>accepted_bookings := accepted_bookings player @ [current_booking],
                    choice_history :=
                      dict_set (choice_history player) (booking_id current_booking)
                        ''Accepted''\<rparr>)\<rparr>
      | _ \<Rightarrow> room)"

definition start_game :: "GameRoom \<Rightarrow> GameRoom" where
  "start_game room = room\<lparr>game_status := ''IN_PROGRESS'', current_round := 0\<rparr>"


section \<open>Exceptions and observable effects\<close>

text \<open>
  An exception is a value. What a coroutine does to the outside (a frame sent on a
  socket, a line printed, a timer task created) is an event of its trace. A coroutine
  that can raise returns the events up to the exception and the exception, if any.
  Every coroutine is run to its end on its own: interleaving with other tasks at an
  \<open>await\<close> is outside this model.
\<close>

datatype error = RuntimeError string | KeyError | WebSocketDisconnect

text \<open>
  A \<open>WebSocket\<close> object: its identity, whether it is closed, and the text of the
  exception a send on it raises once it is closed. By the comment in \<open>broadcast_html\<close>,
  sending on a closed socket raises \<open>RuntimeError\<close>.
\<close>

record WebSocket =
  ws_id :: nat
  closed :: bool
  error_text :: string

datatype event =
    Sent nat string
  | Printed string
  | TimerTask string int

definition send_text :: "WebSocket \<Rightarrow> string \<Rightarrow> error + event" where
  "send_text connection html =
     (if closed connection then Inl (RuntimeError (error_text connection))
      else Inr (Sent (ws_id connection) html))"

section \<open>connection_manager.py\<close>

type_synonym active_connections = "(string, (string \<times> WebSocket) list) dict"

text \<open>\<open>connect\<close>, after the socket has accepted the connection.\<close>

definition connect :: "active_connections \<Rightarrow> WebSocket \<Rightarrow> string \<Rightarrow> string \<Rightarrow> active_connections" where
  "connect ac websocket rid pid =
     (let ac1 = (if \<not> dict_in rid ac then dict_set ac rid [] else ac)
      in (case dict_get ac1 rid of
            Some conns \<Rightarrow> dict_set ac1 rid (conns @ [(pid, websocket)])
          | None \<Rightarrow> ac1))"

definition get_connections_in_room :: "active_connections \<Rightarrow> string \<Rightarrow> (string \<times> WebSocket) list" where
  "get_connections_in_room ac rid = (case dict_get ac rid of Some conns \<Rightarrow> conns | None \<Rightarrow> [])"

text \<open>
  The loop of \<open>broadcast_html\<close> with its \<open>try\<close>: a \<open>RuntimeError\<close> \<open>e\<close> is printed,
  as \<open>f"Could not send to closed socket for player {player_id}: {e}"\<close>, and the loop
  goes on; any other exception leaves the loop.
\<close>

fun broadcast_loop :: "(string \<times> WebSocket) list \<Rightarrow> string \<Rightarrow> event list \<times> error option" where
  "broadcast_loop [] html_content = ([], None)"
| "broadcast_loop ((pid, connection) # rest) html_content =
     (case send_text connection html_content of
        Inr ev \<Rightarrow> (case broadcast_loop rest html_content of (evs, x) \<Rightarrow> (ev # evs, x))
      | Inl (RuntimeError e) \<Rightarrow>
          (case broadcast_loop rest html_content of
             (evs, x) \<Rightarrow>
               (Printed (''Could not send to closed socket for player '' @ pid @ '': '' @ e)
                  # evs, x))
      | Inl e \<Rightarrow> ([], Some e))"

definition broadcast_html :: "active_connections \<Rightarrow> string \<Rightarrow> string \<Rightarrow> event list \<times> error option" where
  "broadcast_html ac rid html_content =
     (case dict_get ac rid of
        Some conns \<Rightarrow> broadcast_loop conns html_content
      | None \<Rightarrow> ([], None))"

section \<open>main.py\<close>

text \<open>
  The templates are an external collaborator: a renderer, taken as a parameter, from the
  template and the context it is given to the text to send.
\<close>

datatype render_call =
    Booking_request GameRoom BookingRequest
  | Host_view GameRoom BookingRequest
  | Results "Player list" bool string string GameRoom
  | Waiting_for_decision string
  | Lobby_updater "Player list" "string option"

type_synonym renderer = "render_call \<Rightarrow> string"

text \<open>The first loop of \<open>start_new_round\<close>: no \<open>try\<close>, so the first exception ends it.\<close>

fun send_round_views ::
  "string \<Rightarrow> string \<Rightarrow> string \<Rightarrow> (string \<times> WebSocket) list \<Rightarrow> event list \<times> error option" where
  "send_round_views hid host_html player_html [] = ([], None)"
| "send_round_views hid host_html player_html ((pid, connection) # rest) =
     (case send_text connection (if pid = hid then host_html else player_html) of
        Inl e \<Rightarrow> ([], Some e)
      | Inr ev \<Rightarrow>
          (case send_round_views hid host_html player_html rest of (evs, x) \<Rightarrow> (ev # evs, x)))"

text \<open>
  The second loop: \<open>game_room.players[host_player_id]\<close> raises \<open>KeyError\<close> when the host
  is no key of the players.
\<close>

fun send_results ::
  "renderer \<Rightarrow> GameRoom \<Rightarrow> Player list \<Rightarrow> (string \<times> WebSocket) list \<Rightarrow> event list \<times> error option" where
  "send_results templates room actual_players [] = ([], None)"
| "send_results templates room actual_players ((pid, connection) # rest) =
     (case dict_get (players room) (host_id room) of
        None \<Rightarrow> ([], Some KeyError)
      | Some host \<Rightarrow>
          (case send_text connection
                  (templates (Results actual_players (pid = host_id room) (name host) pid room)) of
             Inl e \<Rightarrow> ([], Some e)
           | Inr ev \<Rightarrow>
               (case send_results templates room actual_players rest of
                  (evs, x) \<Rightarrow> (ev # evs, x))))"

text \<open>
  \<open>start_new_round\<close>, given what \<open>game_manager.get(room_id)\<close> returns and the connections
  of the room. The timer task is created only when every view has been sent.
\<close>

definition start_new_round ::
  "renderer \<Rightarrow> (string \<times> WebSocket) list \<Rightarrow> GameRoom option \<Rightarrow> rng
     \<Rightarrow> (GameRoom option \<times> rng) \<times> event list \<times> error option" where
  "start_new_round templates conns game_room r =
     (case game_room of
        None \<Rightarrow> ((None, r), [], None)
      | Some room \<Rightarrow>
          (case get_current_booking room of
             Some current_booking \<Rightarrow>
               (case send_round_views (host_id room)
                       (templates (Host_view room current_booking))
                       (templates (Booking_request room current_booking)) conns of
                  (evs, Some e) \<Rightarrow> ((Some room, r), evs, Some e)
                | (evs, None) \<Rightarrow>
                    ((Some room, r), evs @ [TimerTask (room_id room) (current_round room)], None))
           | None \<Rightarrow>
               (case end_game room r of
                  (room', r') \<Rightarrow>
                    (let actual_players =
                           filter (\<lambda>p. player_id p \<noteq> host_id room') (dict_values (players room'))
                     in (case send_results templates room' actual_players conns of
                           (evs, x) \<Rightarrow> ((Some room', r'), evs, x))))))"

text \<open>\<open>round_timer\<close>, once its sleep is over.\<close>

definition round_timer ::
  "renderer \<Rightarrow> (string \<times> WebSocket) list \<Rightarrow> GameRoom option \<Rightarrow> int \<Rightarrow> rng
     \<Rightarrow> (GameRoom option \<times> rng) \<times> event list \<times> error option" where
  "round_timer templates conns game_room round_number r =
     (case game_room of
        None \<Rightarrow> ((None, r), [], None)
      | Some room \<Rightarrow>
          (if current_round room = round_number
           then (case advance_to_next_round room r of
                   (room', r') \<Rightarrow> start_new_round templates conns (Some room') r')
           else ((Some room, r), [], None)))"

text \<open>
  One turn of the loop of \<open>websocket_endpoint\<close>: the message has been received and
  parsed, \<open>action\<close> is \<open>message.get("action")\<close>. The three \<open>if\<close>s run in turn; an
  exception in one leaves the loop.
\<close>

definition on_start_game ::
  "renderer \<Rightarrow> (string \<times> WebSocket) list \<Rightarrow> GameRoom option \<Rightarrow> string option \<Rightarrow> rng
     \<Rightarrow> (GameRoom option \<times> rng) \<times> event list \<times> error option" where
  "on_start_game templates conns game_room action r =
     (case game_room of
        Some room \<Rightarrow>
          (if action = Some ''start_game''
           then start_new_round templates conns (Some (start_game room)) r
           else ((game_room, r), [], None))
      | None \<Rightarrow> ((game_room, r), [], None))"

definition on_accept_booking ::
  "renderer \<Rightarrow> WebSocket \<Rightarrow> string \<Rightarrow> GameRoom option \<Rightarrow> string option
     \<Rightarrow> GameRoom option \<times> event list \<times> error option" where
  "on_accept_booking templates websocket pid game_room action =
     (case game_room of
        Some room \<Rightarrow>
          (if action = Some ''accept_booking''
           then (case send_text websocket (templates (Waiting_for_decision ''Accepted'')) of
                   Inl e \<Rightarrow> (Some (player_accept_booking room pid), [], Some e)
                 | Inr ev \<Rightarrow> (Some (player_accept_booking room pid), [ev], None))
           else (game_room, [], None))
      | None \<Rightarrow> (game_room, [], None))"

definition on_reject_booking ::
  "renderer \<Rightarrow> WebSocket \<Rightarrow> GameRoom option \<Rightarrow> string option
     \<Rightarrow> GameRoom option \<times> event list \<times> error option" where
  "on_reject_booking templates websocket game_room action =
     (case game_room of
        Some room \<Rightarrow>
          (if action = Some ''reject_booking''
           then (case send_text websocket (templates (Waiting_for_decision ''Rejected'')) of
                   Inl e \<Rightarrow> (game_room, [], Some e)
                 | Inr ev \<Rightarrow> (game_room, [ev], None))
           else (game_room, [], None))
      | None \<Rightarrow> (game_room, [], None))"

definition websocket_message ::
  "renderer \<Rightarrow> (string \<times> WebSocket) list \<Rightarrow> WebSocket \<Rightarrow> string \<Rightarrow> GameRoom option
     \<Rightarrow> string option \<Rightarrow> rng \<Rightarrow> (GameRoom option \<times> rng) \<times> event list \<times> error option" where
  "websocket_message templates conns websocket pid game_room action r =
     (case on_start_game templates conns game_room action r of
        ((g1, r1), evs1, Some e) \<Rightarrow> ((g1, r1), evs1, Some e)
      | ((g1, r1), evs1, None) \<Rightarrow>
          (case on_accept_booking templates websocket pid g1 action of
             (g2, evs2, Some e) \<Rightarrow> ((g2, r1), evs1 @ evs2, Some e)
           | (g2, evs2, None) \<Rightarrow>
               (case on_reject_booking templates websocket g2 action of
                  (g3, evs3, x) \<Rightarrow> ((g3, r1), evs1 @ evs2 @ evs3, x))))"

section \<open>game_logic.py\<close>

subsection \<open>The functions of module \<open>random\<close> it calls\<close>

text \<open>
  The library's integer primitive: a number below \<open>n\<close>. \<open>randint\<close> and \<open>choice\<close> are
  the library's own definitions over it. The program calls \<open>choice\<close> on lists that are
  not empty, so it does not raise.
\<close>

definition randbelow :: "nat \<Rightarrow> rng \<Rightarrow> nat \<times> rng" where
  "randbelow n r = (case next_draw r of (d, r') \<Rightarrow> (d mod n, r'))"

definition random_randint :: "int \<Rightarrow> int \<Rightarrow> rng \<Rightarrow> int \<times> rng" where
  "random_randint a b r = (case randbelow (nat (b - a + 1)) r of (k, r') \<Rightarrow> (a + int k, r'))"

definition random_choice :: "'a list \<Rightarrow> rng \<Rightarrow> 'a \<times> rng" where
  "random_choice seq r = (case randbelow (length seq) r of (i, r') \<Rightarrow> (seq ! i, r'))"

text \<open>
  \<open>random.sample(population, k)\<close>, as the library defines it for \<open>0 \<le> k \<le> n\<close> and
  \<open>k \<le> 5\<close> (the program's \<open>k\<close> is \<open>min(n, 3)\<close>), where its \<open>setsize\<close> is 21. A
  population of at most 21 elements is sampled from a pool: the element chosen is
  replaced by the last one not yet chosen.
\<close>

fun sample_pool :: "'a list \<Rightarrow> nat \<Rightarrow> nat \<Rightarrow> rng \<Rightarrow> 'a list \<times> rng" where
  "sample_pool pool 0 i r = ([], r)"
| "sample_pool pool (Suc k) i r =
     (case randbelow (length pool - i) r of (j, r') \<Rightarrow>
        (case sample_pool (pool[j := pool ! (length pool - i - 1)]) k (i + 1) r' of
           (result, r'') \<Rightarrow> (pool ! j # result, r'')))"

text \<open>
  A larger population is sampled by index: an index already selected is drawn again,
  \<open>while j in selected: j = randbelow(n)\<close>. This loop need not end, so it has no value
  when it does not.
\<close>

partial_function (option) redraw :: "nat \<Rightarrow> nat list \<Rightarrow> nat \<Rightarrow> rng \<Rightarrow> (nat \<times> rng) option" where
  "redraw n selected j r =
     (if j \<in> set selected
      then (case randbelow n r of (j', r') \<Rightarrow> redraw n selected j' r')
      else Some (j, r))"

fun sample_selected :: "'a list \<Rightarrow> nat \<Rightarrow> nat list \<Rightarrow> rng \<Rightarrow> ('a list \<times> rng) option" where
  "sample_selected population 0 selected r = Some ([], r)"
| "sample_selected population (Suc k) selected r =
     (case randbelow (length population) r of (j0, r0) \<Rightarrow>
        (case redraw (length population) selected j0 r0 of
           None \<Rightarrow> None
         | Some (j, r') \<Rightarrow>
             (case sample_selected population k (j # selected) r' of
                None \<Rightarrow> None
              | Some (result, r'') \<Rightarrow> Some (population ! j # result, r''))))"

definition random_sample :: "'a list \<Rightarrow> nat \<Rightarrow> rng \<Rightarrow> ('a list \<times> rng) option" where
  "random_sample population k r =
     (let n = length population; setsize = 21
      in if n \<le> setsize then Some (sample_pool population k 0 r)
         else sample_selected population k [] r)"

subsection \<open>The string methods it calls\<close>

text \<open>\<open>s.replace(old, new)\<close> for strings \<open>old\<close> and \<open>new\<close> of one character.\<close>

definition str_replace :: "string \<Rightarrow> char \<Rightarrow> char \<Rightarrow> string" where
  "str_replace s old new = map (\<lambda>c. if c = old then new else c) s"

definition lower_upper :: "(char \<times> char) list" where
  "lower_upper = zip ''abcdefghijklmnopqrstuvwxyz'' ''ABCDEFGHIJKLMNOPQRSTUVWXYZ''"

definition to_upper :: "char \<Rightarrow> char" where
  "to_upper c = (case map_of lower_upper c of Some u \<Rightarrow> u | None \<Rightarrow> c)"

definition to_lower :: "char \<Rightarrow> char" where
  "to_lower c = (case map_of (map (\<lambda>(l, u). (u, l)) lower_upper) c of Some l \<Rightarrow> l | None \<Rightarrow> c)"

definition is_cased :: "char \<Rightarrow> bool" where
  "is_cased c = (to_upper c \<noteq> c \<or> to_lower c \<noteq> c)"

text \<open>
  \<open>s.title()\<close> on ASCII text: a cased character is made upper case when the character
  before it is not cased, lower case when it is.
\<close>

fun title_from :: "bool \<Rightarrow> string \<Rightarrow> string" where
  "title_from previous_is_cased [] = []"
| "title_from previous_is_cased (c # s) =
     (if previous_is_cased then to_lower c else to_upper c) # title_from (is_cased c) s"

definition str_title :: "string \<Rightarrow> string" where
  "str_title s = title_from False s"

subsection \<open>The generator\<close>

definition PROFESSIONS :: "string list" where
  "PROFESSIONS = [''Engineer'', ''Doctor'', ''Artist'', ''Farmer'', ''Teacher'', ''Lawyer'',
     ''Student'', ''Politician'']"

definition SEXES :: "string list" where
  "SEXES = [''Male'', ''Female'']"

definition AGE_GROUPS :: "string list" where
  "AGE_GROUPS = [''18-25'', ''26-40'', ''41-60'', ''60+'']"

definition INDIAN_STATES :: "string list" where
  "INDIAN_STATES = [
     ''Andhra Pradesh'', ''Arunachal Pradesh'', ''Assam'', ''Bihar'', ''Chhattisgarh'', ''Goa'',
     ''Gujarat'', ''Haryana'', ''Himachal Pradesh'', ''Jharkhand'', ''Karnataka'', ''Kerala'',
     ''Madhya Pradesh'', ''Maharashtra'', ''Manipur'', ''Meghalaya'', ''Mizoram'', ''Nagaland'',
     ''Odisha'', ''Punjab'', ''Rajasthan'', ''Sikkim'', ''Tamil Nadu'', ''Telangana'', ''Tripura'',
     ''Uttar Pradesh'', ''Uttarakhand'', ''West Bengal'', ''Delhi'', ''Puducherry'']"

definition TOTAL_BOOKINGS_PER_GAME :: nat where
  "TOTAL_BOOKINGS_PER_GAME = 15"

text \<open>
  One passenger: the dictionary literal is evaluated in its order, and an attribute draws
  only when it is not the anchored one.
\<close>

definition passenger_profile :: "string \<Rightarrow> string \<Rightarrow> string list \<Rightarrow> rng \<Rightarrow> Passenger \<times> rng" where
  "passenger_profile anchor_type' anchor_value' selected_regions r =
     (case (if anchor_type' = ''profession'' then (anchor_value', r)
            else random_choice PROFESSIONS r) of (pr, r1) \<Rightarrow>
      case (if anchor_type' = ''sex'' then (anchor_value', r1)
            else random_choice SEXES r1) of (sx, r2) \<Rightarrow>
      case (if anchor_type' = ''age_group'' then (anchor_value', r2)
            else random_choice AGE_GROUPS r2) of (ag, r3) \<Rightarrow>
      case (if anchor_type' = ''region'' then (anchor_value', r3)
            else random_choice selected_regions r3) of (rg, r4) \<Rightarrow>
        (\<lparr>profession = pr, sex = sx, age_group = ag, region = rg\<rparr>, r4))"

text \<open>The inner loop, \<open>for _ in range(volume)\<close>.\<close>

fun make_passengers :: "nat \<Rightarrow> string \<Rightarrow> string \<Rightarrow> string list \<Rightarrow> rng \<Rightarrow> Passenger list \<times> rng" where
  "make_passengers 0 anchor_type' anchor_value' selected_regions r = ([], r)"
| "make_passengers (Suc n) anchor_type' anchor_value' selected_regions r =
     (case passenger_profile anchor_type' anchor_value' selected_regions r of (p, r') \<Rightarrow>
        (case make_passengers n anchor_type' anchor_value' selected_regions r' of
           (ps, r'') \<Rightarrow> (p # ps, r'')))"

text \<open>
  The body of the outer loop for the index \<open>i\<close>. The price is
  \<open>int(4000 * random.uniform(0.75, 1.5))\<close>: \<open>uniform\<close> calls \<open>random()\<close> once and
  computes in double arithmetic, as the product and \<open>int\<close> do. That arithmetic is not
  modelled: the price as a function of the value \<open>random()\<close> returned is the parameter
  \<open>price_of\<close>. The body has no value when the sample's loop does not end. Beside the
  booking it returns what the program does not keep: \<open>selected_regions\<close>, the regions
  pre-selected for this booking, and the state of the random source after the sample,
  at which the anchor value is chosen.
\<close>

definition generate_booking ::
  "(real \<Rightarrow> int) \<Rightarrow> int \<Rightarrow> rng \<Rightarrow> ((BookingRequest \<times> string list \<times> rng) \<times> rng) option" where
  "generate_booking price_of i r =
     (case random_randint 5 15 r of (volume', r1) \<Rightarrow>
      case random_random r1 of (u, r2) \<Rightarrow>
      case random_choice [''profession'', ''sex'', ''age_group'', ''region''] r2 of
        (anchor_type', r3) \<Rightarrow>
      case random_sample INDIAN_STATES (min (length INDIAN_STATES) 3) r3 of
        None \<Rightarrow> None
      | Some (selected_regions, r4) \<Rightarrow>
         (case (if anchor_type' = ''profession'' then random_choice PROFESSIONS r4
                else if anchor_type' = ''sex'' then random_choice SEXES r4
                else if anchor_type' = ''age_group'' then random_choice AGE_GROUPS r4
                else random_choice INDIAN_STATES r4) of (anchor_value', r5) \<Rightarrow>
          case make_passengers (nat volume') anchor_type' anchor_value' selected_regions r5 of
            (passengers', r6) \<Rightarrow>
            Some ((\<lparr>booking_id = i, volume = volume', price_per_seat = price_of u,
                    anchor_type = str_title (str_replace anchor_type' (CHR ''_'') (CHR '' '')),
                    anchor_value = anchor_value', passengers = passengers'\<rparr>,
                   selected_regions, r4), r6)))"

text \<open>The outer loop, \<open>for i in range(TOTAL_BOOKINGS_PER_GAME)\<close>, from the index \<open>i\<close> on.\<close>

fun generate_from ::
  "(real \<Rightarrow> int) \<Rightarrow> nat \<Rightarrow> int \<Rightarrow> rng
     \<Rightarrow> ((BookingRequest \<times> string list \<times> rng) list \<times> rng) option" where
  "generate_from price_of 0 i r = Some ([], r)"
| "generate_from price_of (Suc n) i r =
     (case generate_booking price_of i r of
        None \<Rightarrow> None
      | Some (b, r') \<Rightarrow>
          (case generate_from price_of n (i + 1) r' of
             None \<Rightarrow> None
           | Some (bs, r'') \<Rightarrow> Some (b # bs, r'')))"

definition generate_bookings :: "(real \<Rightarrow> int) \<Rightarrow> rng \<Rightarrow> (BookingRequest list \<times> rng) option" where
  "generate_bookings price_of r =
     (case generate_from price_of TOTAL_BOOKINGS_PER_GAME 0 r of
        None \<Rightarrow> None
      | Some (bs, r') \<Rightarrow> Some (map fst bs, r'))"

section \<open>What a scoring pass draws\<close>

text \<open>
  The show-up counts of a scoring pass: for each accepted booking in turn, the count the
  inner loop of \<open>calculate_final_score\<close> returns, each booking drawing after the one
  before it.
\<close>

fun show_ups :: "BookingRequest list \<Rightarrow> rng \<Rightarrow> int list" where
  "show_ups [] r = []"
| "show_ups (booking # rest) r =
     (case count_showed_up (passengers booking) 0 r of (n, r') \<Rightarrow> n # show_ups rest r')"

section \<open>Example inputs\<close>

definition demo_passenger :: Passenger where
  "demo_passenger =
     \<lparr>profession = ''Engineer'', sex = ''Male'', age_group = ''18-25'', region = ''Goa''\<rparr>"

definition demo_booking :: "int \<Rightarrow> BookingRequest" where
  "demo_booking i =
     \<lparr>booking_id = i, volume = 5, price_per_seat = 4000, anchor_type = ''Sex'',
      anchor_value = ''Male'',
      passengers = [demo_passenger, demo_passenger, demo_passenger, demo_passenger,
        demo_passenger]\<rparr>"

text \<open>A room as \<open>host_game\<close> and \<open>get_game_room\<close> build it: the host, one player, two bookings.\<close>

definition demo_room :: GameRoom where
  "demo_room =
     (add_player (add_player (new_GameRoom ''a1b2c3'' ''H'') ''H'' ''Ann (Host)'') ''P'' ''Bob'')
       \<lparr>bookings := [demo_booking 0, demo_booking 1]\<rparr>"

text \<open>A source under which every passenger shows up, and one under which none does.\<close>

definition all_show :: rng where
  "all_show = \<lparr>pos = 0, src = (\<lambda>n. 2 ^ 52)\<rparr>"

definition none_show :: rng where
  "none_show = \<lparr>pos = 0, src = (\<lambda>n. 0)\<rparr>"

text \<open>The room of the example played to its end with nobody deciding anything.\<close>

definition demo_finished :: GameRoom where
  "demo_finished =
     fst (advance_to_next_round
       (fst (advance_to_next_round (start_game demo_room) none_show)) none_show)"

text \<open>The started room with a third player, who has accepted the booking of round 0.\<close>

definition demo_round0 :: GameRoom where
  "demo_round0 = player_accept_booking (add_player (start_game demo_room) ''Q'' ''Cy'') ''Q''"

text \<open>A renderer and the connections of the host and the player.\<close>

definition demo_templates :: renderer where
  "demo_templates call =
     (case call of
        Booking_request room b \<Rightarrow> ''booking''
      | Host_view room b \<Rightarrow> ''host''
      | Results ps is_host host_name pid room \<Rightarrow> ''results''
      | Waiting_for_decision decision \<Rightarrow> ''waiting: '' @ decision
      | Lobby_updater ps pid \<Rightarrow> ''lobby'')"

definition demo_connections :: "(string \<times> WebSocket) list" where
  "demo_connections =
     [(''H'', \<lparr>ws_id = 0, closed = False, error_text = ''closed''\<rparr>),
      (''P'', \<lparr>ws_id = 1, closed = False, error_text = ''closed''\<rparr>)]"

text \<open>The open socket of the player.\<close>

definition demo_socket :: WebSocket where
  "demo_socket = \<lparr>ws_id = 1, closed = False, error_text = ''closed''\<rparr>"

text \<open>
  Three connections registered for the example room; the socket of the player \<open>P\<close>
  is closed by the time of the broadcast.
\<close>

definition demo_active :: active_connections where
  "demo_active =
     connect
       (connect
          (connect [] \<lparr>ws_id = 0, closed = False, error_text = ''closed''\<rparr> ''a1b2c3'' ''H'')
          \<lparr>ws_id = 1, closed = True, error_text = ''closed''\<rparr> ''a1b2c3'' ''P'')
       \<lparr>ws_id = 2, closed = False, error_text = ''closed''\<rparr> ''a1b2c3'' ''Q''"

text \<open>
  The example room in its last round: the player has accepted the booking of round 0,
  and round 0 has been advanced.
\<close>

definition demo_last_round :: GameRoom where
  "demo_last_round =
     fst (advance_to_next_round (player_accept_booking (start_game demo_room) ''P'') none_show)"

text \<open>A source under which the first five passengers drawn show up and no later one.\<close>

definition first_five_show :: rng where
  "first_five_show = \<lparr>pos = 0, src = (\<lambda>n. if n < 5 then 2 ^ 52 else 0)\<rparr>"

text \<open>
  A source for the generator: volume 5, the anchor dimension \<open>region\<close>, the first three
  regions pre-selected (by the indices 0, 1 and 2, none drawn twice), the eighth region
  as anchor value.
\<close>

definition region_anchor_source :: rng where
  "region_anchor_source =
     \<lparr>pos = 0,
      src = (\<lambda>n. if n = 2 then 3 else if n = 4 then 1 else if n = 5 then 2
                  else if n = 6 then 7 else 0)\<rparr>"

text \<open>A source that counts: no index is drawn twice in a sample, so every sample ends.\<close>

definition counting_source :: rng where
  "counting_source = \<lparr>pos = 0, src = (\<lambda>n. n)\<rparr>"

text \<open>A price function for the examples, which do not look at the price.\<close>

definition flat_price :: "real \<Rightarrow> int" where
  "flat_price u = 4000"

section \<open>Region diversity of a booking\<close>

text \<open>
  What holds of a generated booking, the regions pre-selected for it and the state of the
  source after the sample: three different regions are pre-selected; when the booking is
  anchored on the region, the anchor value is the choice made at that state among all the
  regions, whatever was pre-selected, and every passenger has it; otherwise every
  passenger's region is one of the pre-selected; so the passengers have at most three
  regions.
\<close>

definition regions_bounded :: "BookingRequest \<times> string list \<times> rng \<Rightarrow> bool" where
  "regions_bounded g =
     (case g of (b, selected_regions, r_anchor) \<Rightarrow>
        length selected_regions = 3 \<and> distinct selected_regions
        \<and> set selected_regions \<subseteq> set INDIAN_STATES
        \<and> (if anchor_type b = ''Region''
            then anchor_value b = fst (random_choice INDIAN_STATES r_anchor)
                 \<and> anchor_value b \<in> set INDIAN_STATES
                 \<and> list_all (\<lambda>p. region p = anchor_value b) (passengers b)
            else list_all (\<lambda>p. region p \<in> set selected_regions) (passengers b))
        \<and> card (region ` set (passengers b)) \<le> 3)"

section \<open>Dictionaries: facts\<close>

lemma dict_get_set_same: "dict_get (dict_set d k v) k = Some v"
  by (induction d k v rule: dict_set.induct) (simp_all add: dict_get_def)

lemma dict_get_set_other: "k' \<noteq> k \<Longrightarrow> dict_get (dict_set d k v) k' = dict_get d k'"
  by (induction d k v rule: dict_set.induct) (simp_all add: dict_get_def)

lemma dict_in_keys: "dict_in k d \<longleftrightarrow> k \<in> set (dict_keys d)"
  by (simp add: dict_in_def dict_get_def dict_keys_def map_of_eq_None_iff)

lemma dict_set_absent: "\<not> dict_in k d \<Longrightarrow> dict_set d k v = d @ [(k, v)]"
  by (induction d k v rule: dict_set.induct) (auto simp: dict_in_def dict_get_def)

lemma dict_set_twice: "dict_set (dict_set d k v) k v' = dict_set d k v'"
  by (induction d k v rule: dict_set.induct) simp_all

lemma dict_keys_set:
  "dict_keys (dict_set d k v) = (if dict_in k d then dict_keys d else dict_keys d @ [k])"
  by (induction d k v rule: dict_set.induct) (auto simp: dict_in_def dict_get_def dict_keys_def)

lemma dict_entries_distinct:
  "distinct (dict_keys d) \<Longrightarrow> dict_entries d k = (if dict_in k d then 1 else 0)"
  unfolding dict_in_keys
  by (induction d) (auto simp: dict_entries_def dict_keys_def image_iff)

lemma dict_get_map_values:
  "dict_get (map (\<lambda>(k, x). (k, f x)) d) k = map_option f (dict_get d k)"
  by (induction d) (auto simp: dict_get_def)

section \<open>Scoring: facts\<close>

text \<open>
  The loop over the accepted bookings touches nothing of the player but
  \<open>show_up_history\<close>, and its two totals are the sums over the show-up counts.
\<close>

lemma score_bookings_totals:
  "fst (score_bookings bs p ts tr r) =
     (p\<lparr>show_up_history := show_up_history (fst (fst (score_bookings bs p ts tr r)))\<rparr>,
      ts + sum_list (show_ups bs r),
      tr + sum_list (map2 (\<lambda>n b. n * price_per_seat b) (show_ups bs r) bs))"
proof (induction bs arbitrary: p ts tr r)
  case Nil
  show ?case by simp
next
  case (Cons b bs)
  obtain n r' where c: "count_showed_up (passengers b) 0 r = (n, r')"
    by (cases "count_showed_up (passengers b) 0 r")
  show ?case
    using Cons.IH [of "p\<lparr>show_up_history := dict_set (show_up_history p) (booking_id b) n\<rparr>"
        "ts + n" "tr + n * price_per_seat b" r']
    by (simp add: c algebra_simps)
qed

text \<open>
  C7. A player whose two penalty fields are zero is scored; \<open>S\<close> is the sum of the
  show-up counts over the accepted bookings. Then \<open>final_revenue\<close> is the sum of
  show-ups times \<open>price_per_seat\<close>; above 100 the overbooking penalty is
  \<open>(S - 100) * 6000\<close> and the underbooking penalty 0; below 100 the underbooking
  penalty is \<open>(100 - S) * 3000\<close> and the overbooking penalty 0; at 100 both are 0; and
  \<open>total_score\<close> is the revenue minus both penalties.
\<close>

theorem calculate_final_score_totals:
  assumes "overbooking_penalty p = 0" and "underbooking_penalty p = 0"
  shows "let counts = show_ups (accepted_bookings p) r;
             S = sum_list counts;
             p' = fst (calculate_final_score p r)
         in final_revenue p' =
              sum_list (map2 (\<lambda>n b. n * price_per_seat b) counts (accepted_bookings p))
          \<and> (S > 100 \<longrightarrow>
                overbooking_penalty p' = (S - 100) * 6000 \<and> underbooking_penalty p' = 0)
          \<and> (S < 100 \<longrightarrow>
                underbooking_penalty p' = (100 - S) * 3000 \<and> overbooking_penalty p' = 0)
          \<and> (S = 100 \<longrightarrow> overbooking_penalty p' = 0 \<and> underbooking_penalty p' = 0)
          \<and> total_score p' =
                final_revenue p' - overbooking_penalty p' - underbooking_penalty p'"
proof -
  obtain p1 ts tr r' where sb:
    "score_bookings (accepted_bookings p) p 0 0 r = ((p1, ts, tr), r')"
    by (metis prod.collapse)
  from score_bookings_totals [of "accepted_bookings p" p 0 0 r] sb
  have p1: "p1 = p\<lparr>show_up_history := show_up_history p1\<rparr>"
    and ts: "ts = sum_list (show_ups (accepted_bookings p) r)"
    and tr: "tr = sum_list (map2 (\<lambda>n b. n * price_per_seat b)
                     (show_ups (accepted_bookings p) r) (accepted_bookings p))"
    by simp_all
  have "overbooking_penalty p1 = overbooking_penalty (p\<lparr>show_up_history := show_up_history p1\<rparr>)"
    and "underbooking_penalty p1 = underbooking_penalty (p\<lparr>show_up_history := show_up_history p1\<rparr>)"
    using p1 by simp_all
  then have o: "overbooking_penalty p1 = 0" and u: "underbooking_penalty p1 = 0"
    using assms by simp_all
  show ?thesis
    using o u ts tr
    by (simp add: calculate_final_score_def sb Let_def FLIGHT_CAPACITY_def
        OVERBOOKING_PENALTY_PER_SEAT_def UNDERBOOKING_PENALTY_PER_SEAT_def)
qed

text \<open>Under \<open>all_show\<close> the five passengers of an example booking all show up.\<close>

lemma count_demo:
  "count_showed_up (passengers (demo_booking k)) 0 (all_show\<lparr>pos := i\<rparr>) = (5, all_show\<lparr>pos := i + 5\<rparr>)"
  by (simp add: demo_booking_def random_random_def next_draw_def all_show_def CANCELLATION_PROBABILITY_def)

theorem calculate_final_score_totals_witness:
  "overbooking_penalty (new_Player ''P'' ''Bob'') = 0
   \<and> underbooking_penalty (new_Player ''P'' ''Bob'') = 0
   \<and> show_ups [demo_booking 0, demo_booking 1] all_show = [5, 5]
   \<and> final_revenue (fst (calculate_final_score
        ((new_Player ''P'' ''Bob'')\<lparr>accepted_bookings := [demo_booking 0, demo_booking 1]\<rparr>) all_show)) = 40000
   \<and> underbooking_penalty (fst (calculate_final_score
        ((new_Player ''P'' ''Bob'')\<lparr>accepted_bookings := [demo_booking 0, demo_booking 1]\<rparr>) all_show)) = 270000
   \<and> overbooking_penalty (fst (calculate_final_score
        ((new_Player ''P'' ''Bob'')\<lparr>accepted_bookings := [demo_booking 0, demo_booking 1]\<rparr>) all_show)) = 0
   \<and> total_score (fst (calculate_final_score
        ((new_Player ''P'' ''Bob'')\<lparr>accepted_bookings := [demo_booking 0, demo_booking 1]\<rparr>) all_show)) = - 230000"
proof -
  have s: "show_ups [demo_booking 0, demo_booking 1] all_show = [5, 5]"
    using count_demo [of 0 0] count_demo [of 1 5]
    by (simp add: all_show_def)
  have pr: "price_per_seat (demo_booking i) = 4000" for i
    by (simp add: demo_booking_def)
  have z: "overbooking_penalty (new_Player ''P'' ''Bob'') = 0"
    "underbooking_penalty (new_Player ''P'' ''Bob'') = 0"
    by (simp_all add: new_Player_def)
  show ?thesis
    using calculate_final_score_totals
      [of "(new_Player ''P'' ''Bob'')\<lparr>accepted_bookings := [demo_booking 0, demo_booking 1]\<rparr>" all_show]
      s z
    by (simp add: Let_def pr)
qed

text \<open>
  C10. A player with no accepted booking and zero penalty fields is scored the same
  whatever the random source: revenue 0, overbooking penalty 0, underbooking penalty
  \<open>100 * 3000 = 300000\<close>, total score \<open>-300000\<close>; no draw is made.
\<close>

theorem no_accepted_bookings_score:
  assumes "accepted_bookings p = []" and "overbooking_penalty p = 0" and "underbooking_penalty p = 0"
  shows "calculate_final_score p r =
    (p\<lparr>final_revenue := 0, underbooking_penalty := 300000, total_score := - 300000\<rparr>, r)"
  using assms
  by (simp add: calculate_final_score_def Let_def FLIGHT_CAPACITY_def UNDERBOOKING_PENALTY_PER_SEAT_def)

theorem no_accepted_bookings_score_witness:
  "accepted_bookings (new_Player ''P'' ''Bob'') = []
   \<and> overbooking_penalty (new_Player ''P'' ''Bob'') = 0
   \<and> underbooking_penalty (new_Player ''P'' ''Bob'') = 0
   \<and> calculate_final_score (new_Player ''P'' ''Bob'') all_show =
       ((new_Player ''P'' ''Bob'')\<lparr>final_revenue := 0, underbooking_penalty := 300000, total_score := - 300000\<rparr>, all_show)
   \<and> calculate_final_score (new_Player ''P'' ''Bob'') none_show =
       ((new_Player ''P'' ''Bob'')\<lparr>final_revenue := 0, underbooking_penalty := 300000, total_score := - 300000\<rparr>, none_show)"
proof -
  have h: "accepted_bookings (new_Player ''P'' ''Bob'') = []"
    "overbooking_penalty (new_Player ''P'' ''Bob'') = 0"
    "underbooking_penalty (new_Player ''P'' ''Bob'') = 0"
    by (simp_all add: new_Player_def)
  show ?thesis
    using h no_accepted_bookings_score [OF h, of all_show] no_accepted_bookings_score [OF h, of none_show]
    by blast
qed

section \<open>The session state machine: facts\<close>

lemma demo_room_eq:
  "demo_room = \<lparr>room_id = ''a1b2c3'', host_id = ''H'',
      players = [(''H'', new_Player ''H'' ''Ann (Host)''), (''P'', new_Player ''P'' ''Bob'')],
      bookings = [demo_booking 0, demo_booking 1], current_round = 0, game_status = ''WAITING''\<rparr>"
  by (simp add: demo_room_def add_player_def new_GameRoom_def dict_in_def dict_get_def)

lemma get_current_booking_players [simp]:
  "get_current_booking (room\<lparr>players := ps\<rparr>) = get_current_booking room"
  by (simp add: get_current_booking_def)

lemma demo_booking_id [simp]: "booking_id (demo_booking i) = i"
  by (simp add: demo_booking_def)

lemma demo_booking_price: "price_per_seat (demo_booking i) = 4000"
  by (simp add: demo_booking_def)

lemma demo_finished_eq:
  "demo_finished = \<lparr>room_id = ''a1b2c3'', host_id = ''H'',
      players =
        [(''H'', (new_Player ''H'' ''Ann (Host)'')
                   \<lparr>final_revenue := 0, underbooking_penalty := 300000, total_score := - 300000\<rparr>),
         (''P'', (new_Player ''P'' ''Bob'')
                   \<lparr>final_revenue := 0, underbooking_penalty := 300000, total_score := - 300000,
                    choice_history := [(0, ''Rejected''), (1, ''Rejected'')]\<rparr>)],
      bookings = [demo_booking 0, demo_booking 1], current_round = 2, game_status = ''FINISHED''\<rparr>"
  by (simp add: demo_finished_def demo_room_eq start_game_def advance_to_next_round_def
      log_rejections_def log_rejection_def get_current_booking_def Let_def end_game_def
      calculate_final_score_def new_Player_def dict_in_def dict_get_def
      FLIGHT_CAPACITY_def UNDERBOOKING_PENALTY_PER_SEAT_def)

text \<open>
  C2, as claimed, fails: the example room is finished, in round 2, and \<open>start_game\<close>
  puts it back to \<open>IN_PROGRESS\<close> in round 0.
\<close>

theorem start_game_counterexample:
  "game_status demo_finished = ''FINISHED'' \<and> current_round demo_finished = 2
   \<and> start_game demo_finished \<noteq> demo_finished
   \<and> game_status (start_game demo_finished) = ''IN_PROGRESS''
   \<and> current_round (start_game demo_finished) = 0"
  by (simp add: demo_finished_eq start_game_def)

text \<open>
  C2, amended. \<open>start_game\<close> has no guard: whatever the status, it sets the status to
  \<open>IN_PROGRESS\<close> and \<open>current_round\<close> to 0 and leaves the rest of the room as it is.
  It changes nothing exactly when the room is already \<open>IN_PROGRESS\<close> in round 0.
\<close>

theorem start_game_unconditional:
  "game_status (start_game room) = ''IN_PROGRESS''
   \<and> current_round (start_game room) = 0
   \<and> room_id (start_game room) = room_id room
   \<and> host_id (start_game room) = host_id room
   \<and> players (start_game room) = players room
   \<and> bookings (start_game room) = bookings room
   \<and> (start_game room = room) = (game_status room = ''IN_PROGRESS'' \<and> current_round room = 0)"
  by (cases room) (auto simp: start_game_def)

text \<open>
  C5, as claimed, fails: the example room is still \<open>WAITING\<close> and has a current
  booking.
\<close>

theorem get_current_booking_counterexample:
  "game_status demo_room = ''WAITING'' \<and> game_status demo_room \<noteq> ''IN_PROGRESS''
   \<and> get_current_booking demo_room = Some (demo_booking 0)"
  by (simp add: demo_room_eq get_current_booking_def)

text \<open>
  C5, amended. \<open>get_current_booking\<close> does not read the status: it returns the booking
  at index \<open>current_round\<close> whenever \<open>0 \<le> current_round < len(bookings)\<close>, whatever the
  status, and none when \<open>current_round \<ge> len(bookings)\<close> (or is negative).
\<close>

theorem get_current_booking_by_round:
  "get_current_booking (room\<lparr>game_status := s\<rparr>) = get_current_booking room
   \<and> (0 \<le> current_round room \<and> current_round room < int (length (bookings room)) \<longrightarrow>
        get_current_booking room = Some (bookings room ! nat (current_round room)))
   \<and> (int (length (bookings room)) \<le> current_round room \<longrightarrow> get_current_booking room = None)
   \<and> (current_round room < 0 \<longrightarrow> get_current_booking room = None)"
  by (simp add: get_current_booking_def)

theorem get_current_booking_by_round_witness:
  "get_current_booking (demo_room\<lparr>game_status := ''FINISHED''\<rparr>) = Some (demo_booking 0)
   \<and> get_current_booking (demo_room\<lparr>current_round := 1, game_status := ''WAITING''\<rparr>) = Some (demo_booking 1)
   \<and> get_current_booking (demo_room\<lparr>current_round := 2\<rparr>) = None"
  using get_current_booking_by_round [where room = demo_room and s = "''FINISHED''"]
    get_current_booking_by_round [where room = "demo_room\<lparr>current_round := 1\<rparr>" and s = "''WAITING''"]
    get_current_booking_by_round [where room = "demo_room\<lparr>current_round := 2\<rparr>" and s = "''WAITING''"]
  by (simp add: demo_room_eq)

section \<open>The broadcaster: facts\<close>

text \<open>
  C9. \<open>broadcast_html\<close> attempts every registered pair of the room in order: an open
  connection is sent the payload; on a closed one the \<open>RuntimeError\<close> is caught and a
  line with the player id and the exception's text is printed, and the connections after
  it are still served; no exception reaches the caller.
\<close>

theorem broadcast_html_delivers:
  "broadcast_html ac rid html_content =
     (map (\<lambda>(pid, connection).
             if closed connection
             then Printed (''Could not send to closed socket for player '' @ pid @ '': ''
                     @ error_text connection)
             else Sent (ws_id connection) html_content)
        (get_connections_in_room ac rid), None)"
proof -
  have "broadcast_loop conns html_content =
     (map (\<lambda>(pid, connection).
             if closed connection
             then Printed (''Could not send to closed socket for player '' @ pid @ '': ''
                     @ error_text connection)
             else Sent (ws_id connection) html_content) conns, None)" for conns
    by (induction conns html_content rule: broadcast_loop.induct) (simp_all add: send_text_def)
  then show ?thesis
    by (simp add: broadcast_html_def get_connections_in_room_def split: option.split)
qed

theorem broadcast_html_delivers_witness:
  "get_connections_in_room demo_active ''a1b2c3'' =
     [(''H'', \<lparr>ws_id = 0, closed = False, error_text = ''closed''\<rparr>),
      (''P'', \<lparr>ws_id = 1, closed = True, error_text = ''closed''\<rparr>),
      (''Q'', \<lparr>ws_id = 2, closed = False, error_text = ''closed''\<rparr>)]
   \<and> broadcast_html demo_active ''a1b2c3'' ''lobby'' =
       ([Sent 0 ''lobby'', Printed ''Could not send to closed socket for player P: closed'',
         Sent 2 ''lobby''], None)
   \<and> broadcast_html demo_active ''zzzzzz'' ''lobby'' = ([], None)"
proof -
  have c: "get_connections_in_room demo_active ''a1b2c3'' =
     [(''H'', \<lparr>ws_id = 0, closed = False, error_text = ''closed''\<rparr>),
      (''P'', \<lparr>ws_id = 1, closed = True, error_text = ''closed''\<rparr>),
      (''Q'', \<lparr>ws_id = 2, closed = False, error_text = ''closed''\<rparr>)]"
    "get_connections_in_room demo_active ''zzzzzz'' = []"
    by (simp_all add: demo_active_def connect_def get_connections_in_room_def dict_in_def
        dict_get_def)
  show ?thesis
    using c broadcast_html_delivers [of demo_active "''a1b2c3''" "''lobby''"]
      broadcast_html_delivers [of demo_active "''zzzzzz''" "''lobby''"]
    by simp
qed

section \<open>Decisions and round advance: facts\<close>

lemma calculate_final_score_keeps:
  "choice_history (fst (calculate_final_score p r)) = choice_history p"
  "player_id (fst (calculate_final_score p r)) = player_id p"
  "accepted_bookings (fst (calculate_final_score p r)) = accepted_bookings p"
proof -
  obtain p1 ts tr r' where sb:
    "score_bookings (accepted_bookings p) p 0 0 r = ((p1, ts, tr), r')"
    by (metis prod.collapse)
  from score_bookings_totals [of "accepted_bookings p" p 0 0 r] sb
  have p1: "p1 = p\<lparr>show_up_history := show_up_history p1\<rparr>"
    by simp
  have "choice_history p1 = choice_history (p\<lparr>show_up_history := show_up_history p1\<rparr>)"
    "player_id p1 = player_id (p\<lparr>show_up_history := show_up_history p1\<rparr>)"
    "accepted_bookings p1 = accepted_bookings (p\<lparr>show_up_history := show_up_history p1\<rparr>)"
    using p1 by simp_all
  then have k: "choice_history p1 = choice_history p" "player_id p1 = player_id p"
    "accepted_bookings p1 = accepted_bookings p"
    by simp_all
  show "choice_history (fst (calculate_final_score p r)) = choice_history p"
    "player_id (fst (calculate_final_score p r)) = player_id p"
    "accepted_bookings (fst (calculate_final_score p r)) = accepted_bookings p"
    using k by (simp_all add: calculate_final_score_def sb Let_def)
qed

lemma score_players_histories:
  "map (\<lambda>(k, p). (k, choice_history p)) (fst (score_players ps r)) =
   map (\<lambda>(k, p). (k, choice_history p)) ps"
proof (induction ps arbitrary: r)
  case Nil
  show ?case by simp
next
  case (Cons kp ps)
  obtain k p where kp: "kp = (k, p)" by (cases kp)
  obtain p' r' where c: "calculate_final_score p r = (p', r')"
    by (cases "calculate_final_score p r")
  obtain ps' r'' where s: "score_players ps r' = (ps', r'')"
    by (cases "score_players ps r'")
  have "choice_history p' = choice_history p"
    using calculate_final_score_keeps(1) [of p r] c by simp
  moreover have "map (\<lambda>(k, p). (k, choice_history p)) ps' = map (\<lambda>(k, p). (k, choice_history p)) ps"
    using Cons.IH [of r'] s by simp
  ultimately show ?case
    by (simp add: kp c s)
qed

lemma end_game_histories:
  "map (\<lambda>(k, p). (k, choice_history p)) (players (fst (end_game room r))) =
   map (\<lambda>(k, p). (k, choice_history p)) (players room)"
proof -
  obtain ps r' where s: "score_players (players room) r = (ps, r')"
    by (cases "score_players (players room) r")
  show ?thesis
    using score_players_histories [of "players room" r]
    by (simp add: end_game_def s)
qed

lemma log_rejections_fields [simp]:
  "current_round (log_rejections room) = current_round room"
  "bookings (log_rejections room) = bookings room"
  "host_id (log_rejections room) = host_id room"
  "game_status (log_rejections room) = game_status room"
  "room_id (log_rejections room) = room_id room"
  by (simp_all add: log_rejections_def split: option.split)

lemma advance_histories:
  assumes "get_current_booking room = Some b"
  shows "map (\<lambda>(k, p). (k, choice_history p)) (players (fst (advance_to_next_round room r))) =
         map (\<lambda>(k, p). (k,
               if player_id p \<noteq> host_id room \<and> \<not> dict_in (booking_id b) (choice_history p)
               then choice_history p @ [(booking_id b, ''Rejected'')]
               else choice_history p)) (players room)"
proof -
  let ?room1 = "log_rejections room"
  have l: "map (\<lambda>(k, p). (k, choice_history p)) (players ?room1) =
         map (\<lambda>(k, p). (k,
               if player_id p \<noteq> host_id room \<and> \<not> dict_in (booking_id b) (choice_history p)
               then choice_history p @ [(booking_id b, ''Rejected'')]
               else choice_history p)) (players room)"
    using assms
    by (auto simp: log_rejections_def log_rejection_def dict_set_absent)
  have "map (\<lambda>(k, p). (k, choice_history p)) (players (fst (advance_to_next_round room r))) =
        map (\<lambda>(k, p). (k, choice_history p)) (players ?room1)"
    by (simp add: advance_to_next_round_def Let_def end_game_histories)
  then show ?thesis using l by simp
qed


lemma demo_round0_eq:
  "demo_round0 = \<lparr>room_id = ''a1b2c3'', host_id = ''H'',
      players =
        [(''H'', new_Player ''H'' ''Ann (Host)''), (''P'', new_Player ''P'' ''Bob''),
         (''Q'', (new_Player ''Q'' ''Cy'')
                   \<lparr>accepted_bookings := [demo_booking 0], choice_history := [(0, ''Accepted'')]\<rparr>)],
      bookings = [demo_booking 0, demo_booking 1], current_round = 0,
      game_status = ''IN_PROGRESS''\<rparr>"
  by (simp add: demo_round0_def demo_room_eq start_game_def add_player_def player_accept_booking_def
      get_current_booking_def dict_in_def dict_get_def new_Player_def)

text \<open>
  C6. In a room with a current booking, \<open>advance_to_next_round\<close> leaves every key of
  the players in place and, player by player: a player who is not the host and has no
  entry for the booking's id gets the entry \<open>Rejected\<close> for it; every other player,
  the host among them, keeps the \<open>choice_history\<close> it had.
\<close>

theorem advance_to_next_round_rejections:
  assumes "get_current_booking room = Some b"
  shows "map (\<lambda>(k, p). (k, choice_history p)) (players (fst (advance_to_next_round room r))) =
         map (\<lambda>(k, p). (k,
               if player_id p \<noteq> host_id room \<and> \<not> dict_in (booking_id b) (choice_history p)
               then choice_history p @ [(booking_id b, ''Rejected'')]
               else choice_history p)) (players room)"
  using assms by (rule advance_histories)

theorem advance_to_next_round_rejections_witness:
  "get_current_booking demo_round0 = Some (demo_booking 0)
   \<and> map (\<lambda>(k, p). (k, choice_history p))
        (players (fst (advance_to_next_round demo_round0 none_show))) =
      [(''H'', []), (''P'', [(0, ''Rejected'')]), (''Q'', [(0, ''Accepted'')])]"
proof -
  have h: "get_current_booking demo_round0 = Some (demo_booking 0)"
    by (simp add: demo_round0_eq get_current_booking_def)
  show ?thesis
    using h advance_to_next_round_rejections [OF h, of none_show]
    by (simp add: demo_round0_eq new_Player_def dict_in_def dict_get_def)
qed

lemma websocket_message_reject:
  "websocket_message templates conns websocket pid game_room (Some ''reject_booking'') r =
     ((game_room, r),
      (case game_room of
         None \<Rightarrow> ([], None)
       | Some room0 \<Rightarrow>
           (if closed websocket then ([], Some (RuntimeError (error_text websocket)))
            else ([Sent (ws_id websocket) (templates (Waiting_for_decision ''Rejected''))],
                  None))))"
  by (cases game_room)
    (simp_all add: websocket_message_def on_start_game_def on_accept_booking_def
      on_reject_booking_def send_text_def)

text \<open>
  C4, amended. A \<open>reject_booking\<close> message leaves the session as it is: nothing is
  written to any \<open>choice_history\<close> and no accepted list changes. All the server does,
  when the room exists, is reply: the confirmation \<open>Rejected\<close> is sent on the sender's
  socket, and nothing else is sent (on a closed socket the send raises and nothing is
  sent). \<open>Rejected\<close> is recorded by the round advance that follows, for a sender who is
  not the host and has no entry for the current booking.
\<close>

theorem reject_booking_records_nothing:
  "websocket_message templates conns websocket pid game_room (Some ''reject_booking'') r =
     ((game_room, r),
      (case game_room of
         None \<Rightarrow> ([], None)
       | Some room0 \<Rightarrow>
           (if closed websocket then ([], Some (RuntimeError (error_text websocket)))
            else ([Sent (ws_id websocket) (templates (Waiting_for_decision ''Rejected''))],
                  None))))
   \<and> (game_room = Some room \<and> get_current_booking room = Some b
        \<and> dict_get (players room) pid = Some p \<and> player_id p \<noteq> host_id room
        \<and> \<not> dict_in (booking_id b) (choice_history p) \<longrightarrow>
      map_option choice_history (dict_get (players (fst (advance_to_next_round room r))) pid) =
        Some (choice_history p @ [(booking_id b, ''Rejected'')]))"
proof (intro conjI impI)
  show "websocket_message templates conns websocket pid game_room (Some ''reject_booking'') r =
     ((game_room, r),
      (case game_room of
         None \<Rightarrow> ([], None)
       | Some room0 \<Rightarrow>
           (if closed websocket then ([], Some (RuntimeError (error_text websocket)))
            else ([Sent (ws_id websocket) (templates (Waiting_for_decision ''Rejected''))],
                  None))))"
    by (rule websocket_message_reject)
next
  assume a: "game_room = Some room \<and> get_current_booking room = Some b
        \<and> dict_get (players room) pid = Some p \<and> player_id p \<noteq> host_id room
        \<and> \<not> dict_in (booking_id b) (choice_history p)"
  let ?g = "\<lambda>p. if player_id p \<noteq> host_id room \<and> \<not> dict_in (booking_id b) (choice_history p)
               then choice_history p @ [(booking_id b, ''Rejected'')]
               else choice_history p"
  have "map_option choice_history (dict_get (players (fst (advance_to_next_round room r))) pid) =
        dict_get (map (\<lambda>(k, p). (k, choice_history p))
          (players (fst (advance_to_next_round room r)))) pid"
    by (simp add: dict_get_map_values)
  also have "\<dots> = dict_get (map (\<lambda>(k, p). (k, ?g p)) (players room)) pid"
    using advance_histories [of room b r] a by simp
  also have "\<dots> = map_option ?g (dict_get (players room) pid)"
    by (rule dict_get_map_values)
  finally show "map_option choice_history
      (dict_get (players (fst (advance_to_next_round room r))) pid) =
        Some (choice_history p @ [(booking_id b, ''Rejected'')])"
    using a by simp
qed

lemma demo_started_eq:
  "start_game demo_room = \<lparr>room_id = ''a1b2c3'', host_id = ''H'',
      players = [(''H'', new_Player ''H'' ''Ann (Host)''), (''P'', new_Player ''P'' ''Bob'')],
      bookings = [demo_booking 0, demo_booking 1], current_round = 0,
      game_status = ''IN_PROGRESS''\<rparr>"
  by (simp add: demo_room_eq start_game_def)

text \<open>
  C4, as claimed, fails: the player of the example sends \<open>reject_booking\<close> in round 0;
  the confirmation is sent, the room is what it was, and the player's
  \<open>choice_history\<close> has no entry for booking 0.
\<close>

theorem reject_booking_counterexample:
  "websocket_message demo_templates demo_connections demo_socket ''P''
      (Some (start_game demo_room)) (Some ''reject_booking'') none_show =
     ((Some (start_game demo_room), none_show), [Sent 1 ''waiting: Rejected''], None)
   \<and> get_current_booking (start_game demo_room) = Some (demo_booking 0)
   \<and> map_option (\<lambda>q. dict_get (choice_history q) 0)
        (dict_get (players (start_game demo_room)) ''P'') = Some None"
  by (simp add: websocket_message_def on_start_game_def on_accept_booking_def
      on_reject_booking_def send_text_def demo_templates_def demo_socket_def demo_started_eq
      get_current_booking_def dict_get_def new_Player_def)

theorem reject_booking_records_nothing_witness:
  "get_current_booking (start_game demo_room) = Some (demo_booking 0)
   \<and> dict_get (players (start_game demo_room)) ''P'' = Some (new_Player ''P'' ''Bob'')
   \<and> player_id (new_Player ''P'' ''Bob'') \<noteq> host_id (start_game demo_room)
   \<and> \<not> dict_in (booking_id (demo_booking 0)) (choice_history (new_Player ''P'' ''Bob''))
   \<and> websocket_message demo_templates demo_connections demo_socket ''P''
        (Some (start_game demo_room)) (Some ''reject_booking'') none_show =
       ((Some (start_game demo_room), none_show), [Sent 1 ''waiting: Rejected''], None)
   \<and> websocket_message demo_templates demo_connections (demo_socket\<lparr>closed := True\<rparr>) ''P''
        (Some (start_game demo_room)) (Some ''reject_booking'') none_show =
       ((Some (start_game demo_room), none_show), [], Some (RuntimeError ''closed''))
   \<and> map_option choice_history
        (dict_get (players (fst (advance_to_next_round (start_game demo_room) none_show))) ''P'') =
       Some [(0, ''Rejected'')]"
proof -
  have h: "get_current_booking (start_game demo_room) = Some (demo_booking 0)"
    "dict_get (players (start_game demo_room)) ''P'' = Some (new_Player ''P'' ''Bob'')"
    "player_id (new_Player ''P'' ''Bob'') \<noteq> host_id (start_game demo_room)"
    "\<not> dict_in (booking_id (demo_booking 0)) (choice_history (new_Player ''P'' ''Bob''))"
    by (simp_all add: demo_started_eq get_current_booking_def dict_get_def dict_in_def
        new_Player_def)
  have c: "choice_history (new_Player ''P'' ''Bob'') = []"
    by (simp add: new_Player_def)
  have s: "closed demo_socket = False" "ws_id demo_socket = 1" "error_text demo_socket = ''closed''"
    "demo_templates (Waiting_for_decision ''Rejected'') = ''waiting: Rejected''"
    by (simp_all add: demo_socket_def demo_templates_def)
  show ?thesis
    using h c s reject_booking_records_nothing
      [where templates = demo_templates and conns = demo_connections
         and websocket = demo_socket and pid = "''P''"
         and game_room = "Some (start_game demo_room)" and r = none_show
         and room = "start_game demo_room" and b = "demo_booking 0"
         and p = "new_Player ''P'' ''Bob''"]
      reject_booking_records_nothing
      [where templates = demo_templates and conns = demo_connections
         and websocket = "demo_socket\<lparr>closed := True\<rparr>" and pid = "''P''"
         and game_room = "Some (start_game demo_room)" and r = none_show
         and room = "start_game demo_room" and b = "demo_booking 0"
         and p = "new_Player ''P'' ''Bob''"]
    by simp
qed

lemma player_accept_booking_known:
  assumes "dict_get (players room) pid = Some p" and "get_current_booking room = Some b"
  shows "dict_get (players (player_accept_booking room pid)) pid =
           Some (p\<lparr>accepted_bookings := accepted_bookings p @ [b],
                   choice_history := dict_set (choice_history p) (booking_id b) ''Accepted''\<rparr>)"
    and "get_current_booking (player_accept_booking room pid) = Some b"
  using assms by (simp_all add: player_accept_booking_def dict_get_set_same)

text \<open>
  C3, amended. \<open>player_accept_booking\<close> has no guard: for a known player and a current
  booking, a second call appends the booking to \<open>accepted_bookings\<close> once more. It
  leaves \<open>choice_history\<close> as the first call made it, with the one entry
  \<open>Accepted\<close> for the booking's id.
\<close>

theorem player_accept_booking_twice:
  assumes "dict_get (players room) pid = Some p"
    and "get_current_booking room = Some b"
    and "distinct (dict_keys (choice_history p))"
  shows "let room1 = player_accept_booking room pid;
             room2 = player_accept_booking room1 pid
         in map_option accepted_bookings (dict_get (players room1) pid) =
              Some (accepted_bookings p @ [b])
          \<and> map_option accepted_bookings (dict_get (players room2) pid) =
              Some (accepted_bookings p @ [b, b])
          \<and> map_option choice_history (dict_get (players room2) pid) =
              map_option choice_history (dict_get (players room1) pid)
          \<and> map_option (\<lambda>q. dict_get (choice_history q) (booking_id b))
                (dict_get (players room2) pid) = Some (Some ''Accepted'')
          \<and> map_option (\<lambda>q. dict_entries (choice_history q) (booking_id b))
                (dict_get (players room2) pid) = Some 1"
proof -
  let ?p1 = "p\<lparr>accepted_bookings := accepted_bookings p @ [b],
                 choice_history := dict_set (choice_history p) (booking_id b) ''Accepted''\<rparr>"
  let ?room1 = "player_accept_booking room pid"
  have g1: "dict_get (players ?room1) pid = Some ?p1"
    and b1: "get_current_booking ?room1 = Some b"
    using player_accept_booking_known [OF assms(1,2)] by simp_all
  have g2: "dict_get (players (player_accept_booking ?room1 pid)) pid =
      Some (?p1\<lparr>accepted_bookings := accepted_bookings ?p1 @ [b],
                 choice_history := dict_set (choice_history ?p1) (booking_id b) ''Accepted''\<rparr>)"
    by (rule player_accept_booking_known(1) [OF g1 b1])
  have d: "distinct (dict_keys (dict_set (choice_history p) (booking_id b) ''Accepted''))"
    using assms(3) by (simp add: dict_keys_set dict_in_keys)
  have i: "dict_in (booking_id b) (dict_set (choice_history p) (booking_id b) ''Accepted'')"
    by (simp add: dict_in_def dict_get_set_same)
  have e: "dict_entries (dict_set (choice_history p) (booking_id b) ''Accepted'') (booking_id b) = 1"
    using dict_entries_distinct [OF d, of "booking_id b"] i by simp
  show ?thesis
    by (simp add: Let_def g1 g2 dict_set_twice dict_get_set_same e)
qed

text \<open>
  C3, as claimed, fails: in the started example room the second accept of the player is
  no no-op, the booking of round 0 is in \<open>accepted_bookings\<close> twice.
\<close>

theorem player_accept_booking_twice_counterexample:
  "player_accept_booking (player_accept_booking (start_game demo_room) ''P'') ''P''
     \<noteq> player_accept_booking (start_game demo_room) ''P''
   \<and> map_option accepted_bookings
        (dict_get (players (player_accept_booking (start_game demo_room) ''P'')) ''P'') =
       Some [demo_booking 0]
   \<and> map_option accepted_bookings
        (dict_get (players (player_accept_booking
           (player_accept_booking (start_game demo_room) ''P'') ''P'')) ''P'') =
       Some [demo_booking 0, demo_booking 0]"
  by (simp add: demo_started_eq player_accept_booking_def get_current_booking_def dict_get_def
      new_Player_def)

theorem player_accept_booking_twice_witness:
  "dict_get (players (start_game demo_room)) ''P'' = Some (new_Player ''P'' ''Bob'')
   \<and> get_current_booking (start_game demo_room) = Some (demo_booking 0)
   \<and> distinct (dict_keys (choice_history (new_Player ''P'' ''Bob'')))
   \<and> map_option accepted_bookings
        (dict_get (players (player_accept_booking
           (player_accept_booking (start_game demo_room) ''P'') ''P'')) ''P'') =
       Some [demo_booking 0, demo_booking 0]
   \<and> map_option (\<lambda>q. dict_entries (choice_history q) 0)
        (dict_get (players (player_accept_booking
           (player_accept_booking (start_game demo_room) ''P'') ''P'')) ''P'') = Some 1"
proof -
  have h: "dict_get (players (start_game demo_room)) ''P'' = Some (new_Player ''P'' ''Bob'')"
    "get_current_booking (start_game demo_room) = Some (demo_booking 0)"
    "distinct (dict_keys (choice_history (new_Player ''P'' ''Bob'')))"
    by (simp_all add: demo_started_eq get_current_booking_def dict_get_def dict_keys_def
        new_Player_def)
  have a: "accepted_bookings (new_Player ''P'' ''Bob'') = []"
    by (simp add: new_Player_def)
  show ?thesis
    using h a player_accept_booking_twice [OF h]
    by (simp add: Let_def)
qed

section \<open>The round timer: facts\<close>

lemma demo_last_round_eq:
  "demo_last_round = \<lparr>room_id = ''a1b2c3'', host_id = ''H'',
      players =
        [(''H'', new_Player ''H'' ''Ann (Host)''),
         (''P'', (new_Player ''P'' ''Bob'')
                   \<lparr>accepted_bookings := [demo_booking 0], choice_history := [(0, ''Accepted'')]\<rparr>)],
      bookings = [demo_booking 0, demo_booking 1], current_round = 1,
      game_status = ''IN_PROGRESS''\<rparr>"
  by (simp add: demo_last_round_def demo_started_eq player_accept_booking_def
      advance_to_next_round_def log_rejections_def log_rejection_def get_current_booking_def
      Let_def dict_in_def dict_get_def new_Player_def)

lemma count_first_five:
  "count_showed_up (passengers (demo_booking k)) 0 first_five_show =
     (5, first_five_show\<lparr>pos := 5\<rparr>)"
  "count_showed_up (passengers (demo_booking k)) 0 (first_five_show\<lparr>pos := 5\<rparr>) =
     (0, first_five_show\<lparr>pos := 10\<rparr>)"
  by (simp_all add: demo_booking_def random_random_def next_draw_def first_five_show_def
      CANCELLATION_PROBABILITY_def)

lemma demo_final_advance:
  "advance_to_next_round demo_last_round first_five_show =
     (\<lparr>room_id = ''a1b2c3'', host_id = ''H'',
      players =
        [(''H'', (new_Player ''H'' ''Ann (Host)'')
                   \<lparr>final_revenue := 0, underbooking_penalty := 300000, total_score := - 300000\<rparr>),
         (''P'', (new_Player ''P'' ''Bob'')
                   \<lparr>accepted_bookings := [demo_booking 0],
                    choice_history := [(0, ''Accepted''), (1, ''Rejected'')],
                    show_up_history := [(0, 5)],
                    final_revenue := 20000, underbooking_penalty := 285000,
                    total_score := - 265000\<rparr>)],
      bookings = [demo_booking 0, demo_booking 1], current_round = 2,
      game_status = ''FINISHED''\<rparr>, first_five_show\<lparr>pos := 5\<rparr>)"
  by (simp add: demo_last_round_eq advance_to_next_round_def log_rejections_def log_rejection_def
      get_current_booking_def Let_def end_game_def calculate_final_score_def count_first_five
      dict_in_def dict_get_def new_Player_def FLIGHT_CAPACITY_def
      UNDERBOOKING_PENALTY_PER_SEAT_def demo_booking_price)


lemma end_game_fields [simp]:
  "current_round (fst (end_game room r)) = current_round room"
  "bookings (fst (end_game room r)) = bookings room"
  "host_id (fst (end_game room r)) = host_id room"
  "room_id (fst (end_game room r)) = room_id room"
  "game_status (fst (end_game room r)) = ''FINISHED''"
  by (simp_all add: end_game_def split: prod.split)

text \<open>
  The timer of the last round scores twice: \<open>advance_to_next_round\<close> ends the game, and
  \<open>start_new_round\<close>, finding no current booking, ends it again.
\<close>

lemma round_timer_last_round:
  assumes "0 \<le> current_round room" and "current_round room + 1 = int (length (bookings room))"
  shows "fst (round_timer templates conns (Some room) (current_round room) r) =
     (case end_game ((log_rejections room)\<lparr>current_round := current_round room + 1\<rparr>) r of
        (room1, r1) \<Rightarrow> (case end_game room1 r1 of (room2, r2) \<Rightarrow> (Some room2, r2)))"
proof -
  obtain room1 r1 where e1:
    "end_game ((log_rejections room)\<lparr>current_round := current_round room + 1\<rparr>) r = (room1, r1)"
    by (cases "end_game ((log_rejections room)\<lparr>current_round := current_round room + 1\<rparr>) r")
  have a: "advance_to_next_round room r = (room1, r1)"
    using assms e1 by (simp add: advance_to_next_round_def Let_def)
  have "current_round room1 = current_round room + 1" "bookings room1 = bookings room"
    using end_game_fields(1,2) [of "(log_rejections room)\<lparr>current_round := current_round room + 1\<rparr>" r] e1
    by simp_all
  then have n: "get_current_booking room1 = None"
    using assms by (simp add: get_current_booking_def)
  show ?thesis
    by (simp add: round_timer_def a start_new_round_def n e1 split: prod.split)
qed

text \<open>
  C1. The claim is that a session is scored once. In the example the timer of the last
  round fires: the advance alone finishes the game and scores every player, with five
  draws; the whole timer draws ten times, and the player's score and show-ups are those
  of a second pass, not those computed when the last round was completed.
\<close>

theorem round_timer_final_round_scores_twice:
  "current_round demo_last_round = 1 \<and> length (bookings demo_last_round) = 2
   \<and> (case advance_to_next_round demo_last_round first_five_show of
         (room', r') \<Rightarrow>
           game_status room' = ''FINISHED'' \<and> current_round room' = 2 \<and> pos r' = 5
           \<and> map (\<lambda>(k, p). (k, show_up_history p, total_score p)) (players room') =
               [(''H'', [], - 300000), (''P'', [(0, 5)], - 265000)])
   \<and> (case round_timer demo_templates demo_connections (Some demo_last_round) 1
              first_five_show of
         ((room'', r''), evs, x) \<Rightarrow>
           pos r'' = 10
           \<and> map_option (\<lambda>room. map (\<lambda>(k, p). (k, show_up_history p, total_score p))
                 (players room)) room'' =
               Some [(''H'', [], - 300000), (''P'', [(0, 0)], - 300000)])"
proof -
  have c: "current_round demo_last_round = 1" "length (bookings demo_last_round) = 2"
    by (simp_all add: demo_last_round_eq)
  have a: "case advance_to_next_round demo_last_round first_five_show of
         (room', r') \<Rightarrow>
           game_status room' = ''FINISHED'' \<and> current_round room' = 2 \<and> pos r' = 5
           \<and> map (\<lambda>(k, p). (k, show_up_history p, total_score p)) (players room') =
               [(''H'', [], - 300000), (''P'', [(0, 5)], - 265000)]"
    by (simp add: demo_final_advance new_Player_def)
  have t: "case round_timer demo_templates demo_connections (Some demo_last_round) 1
              first_five_show of
         ((room'', r''), evs, x) \<Rightarrow>
           pos r'' = 10
           \<and> map_option (\<lambda>room. map (\<lambda>(k, p). (k, show_up_history p, total_score p))
                 (players room)) room'' =
               Some [(''H'', [], - 300000), (''P'', [(0, 0)], - 300000)]"
    by (simp add: round_timer_def c demo_final_advance start_new_round_def get_current_booking_def
        end_game_def calculate_final_score_def count_first_five Let_def new_Player_def
        FLIGHT_CAPACITY_def UNDERBOOKING_PENALTY_PER_SEAT_def demo_booking_price
        split: prod.split)
  show ?thesis using c a t by blast
qed

section \<open>The booking generator: facts\<close>

lemma random_choice_in_set: "seq \<noteq> [] \<Longrightarrow> fst (random_choice seq r) \<in> set seq"
  by (simp add: random_choice_def randbelow_def next_draw_def)

text \<open>An index the loop returns is not selected yet, and is below \<open>n\<close> as its draws are.\<close>

lemma redraw_Some:
  assumes "redraw n selected j r = Some y"
  shows "fst y \<notin> set selected \<and> (0 < n \<and> j < n \<longrightarrow> fst y < n)"
proof (rule redraw.raw_induct
    [where P = "\<lambda>n selected j r y. fst y \<notin> set selected \<and> (0 < n \<and> j < n \<longrightarrow> fst y < n)",
      OF _ assms])
  fix f n selected j r y
  assume ih: "\<And>n selected j r y. f n selected j r = Some y \<Longrightarrow>
      fst y \<notin> set selected \<and> (0 < n \<and> j < n \<longrightarrow> fst y < n)"
    and eq: "(if j \<in> set selected
              then case randbelow n r of (j', r') \<Rightarrow> f n selected j' r'
              else Some (j, r)) = Some y"
  show "fst y \<notin> set selected \<and> (0 < n \<and> j < n \<longrightarrow> fst y < n)"
  proof (cases "j \<in> set selected")
    case True
    then have "f n selected (src r (pos r) mod n) (r\<lparr>pos := Suc (pos r)\<rparr>) = Some y"
      using eq by (simp add: randbelow_def next_draw_def)
    then have "fst y \<notin> set selected
        \<and> (0 < n \<and> src r (pos r) mod n < n \<longrightarrow> fst y < n)"
      by (rule ih)
    then show ?thesis by simp
  next
    case False
    then show ?thesis using eq by auto
  qed
qed

lemma redraw_fresh: "j \<notin> set selected \<Longrightarrow> redraw n selected j r = Some (j, r)"
  by (subst redraw.simps) simp

text \<open>
  A sample by index, when it ends, is made of the elements at \<open>k\<close> different indices,
  none of them selected before.
\<close>

lemma sample_selected_indices:
  "sample_selected population k selected r = Some (result, r') \<Longrightarrow> population \<noteq> [] \<Longrightarrow>
     \<exists>js. result = map ((!) population) js \<and> length js = k \<and> distinct js
          \<and> set js \<inter> set selected = {} \<and> (\<forall>j \<in> set js. j < length population)"
proof (induction k arbitrary: selected r result r')
  case 0
  then show ?case by simp
next
  case (Suc k)
  let ?n = "length population"
  let ?j0 = "src r (pos r) mod ?n"
  let ?r0 = "r\<lparr>pos := Suc (pos r)\<rparr>"
  have n: "0 < ?n" using Suc.prems(2) by simp
  obtain j r1 where rd: "redraw ?n selected ?j0 ?r0 = Some (j, r1)"
    using Suc.prems(1)
    by (auto simp: randbelow_def next_draw_def split: option.splits)
  obtain res r2 where rec: "sample_selected population k (j # selected) r1 = Some (res, r2)"
    and result: "result = population ! j # res"
    using Suc.prems(1) rd
    by (auto simp: randbelow_def next_draw_def split: option.splits)
  have j: "j \<notin> set selected" "j < ?n"
    using redraw_Some [OF rd] n by simp_all
  obtain js where js: "res = map ((!) population) js" "length js = k" "distinct js"
    "set js \<inter> set (j # selected) = {}" "\<forall>x \<in> set js. x < ?n"
    using Suc.IH [OF rec Suc.prems(2)] by blast
  have "result = map ((!) population) (j # js)" using result js(1) by simp
  moreover have "length (j # js) = Suc k" using js(2) by simp
  moreover have "distinct (j # js)" using js(3,4) by auto
  moreover have "set (j # js) \<inter> set selected = {}" using js(4) j(1) by auto
  moreover have "\<forall>x \<in> set (j # js). x < ?n" using js(5) j(2) by simp
  ultimately show ?case by blast
qed

lemma random_sample_large:
  assumes "random_sample population k r = Some (result, r')" and "21 < length population"
  shows "length result = k" and "set result \<subseteq> set population"
    and "distinct population \<Longrightarrow> distinct result"
proof -
  have s: "sample_selected population k [] r = Some (result, r')"
    using assms by (simp add: random_sample_def Let_def)
  have ne: "population \<noteq> []" using assms(2) by auto
  obtain js where js: "result = map ((!) population) js" "length js = k" "distinct js"
    "\<forall>j \<in> set js. j < length population"
    using sample_selected_indices [OF s ne] by blast
  show "length result = k" using js(1,2) by simp
  show "set result \<subseteq> set population" using js(1,4) by auto
  show "distinct result" if "distinct population"
  proof -
    have "inj_on ((!) population) (set js)"
      using that js(4) by (auto simp: inj_on_def nth_eq_iff_index_eq)
    then show ?thesis using js(1,3) by (simp add: distinct_map)
  qed
qed

lemma make_passengers_anchored:
  "list_all (\<lambda>p. region p = v) (fst (make_passengers n ''region'' v sel r))"
proof (induction n arbitrary: r)
  case 0
  show ?case by simp
next
  case (Suc n)
  obtain p r' where pp: "passenger_profile ''region'' v sel r = (p, r')"
    by (cases "passenger_profile ''region'' v sel r")
  obtain ps r'' where mp: "make_passengers n ''region'' v sel r' = (ps, r'')"
    by (cases "make_passengers n ''region'' v sel r'")
  have "region p = v"
    using pp by (auto simp: passenger_profile_def split: prod.splits)
  then show ?case
    using Suc.IH [of r'] by (simp add: pp mp)
qed

lemma make_passengers_selected:
  assumes "t \<noteq> ''region''" and "sel \<noteq> []"
  shows "list_all (\<lambda>p. region p \<in> set sel) (fst (make_passengers n t v sel r))"
proof (induction n arbitrary: r)
  case 0
  show ?case by simp
next
  case (Suc n)
  obtain p r' where pp: "passenger_profile t v sel r = (p, r')"
    by (cases "passenger_profile t v sel r")
  obtain ps r'' where mp: "make_passengers n t v sel r' = (ps, r'')"
    by (cases "make_passengers n t v sel r'")
  have "region p \<in> set sel"
    using pp assms random_choice_in_set [of sel]
    by (auto simp: passenger_profile_def split: prod.splits if_splits) (metis fst_conv)+
  then show ?case
    using Suc.IH [of r'] by (simp add: pp mp)
qed


lemma anchor_titles:
  "str_title (str_replace ''profession'' (CHR ''_'') (CHR '' '')) = ''Profession''"
  "str_title (str_replace ''sex'' (CHR ''_'') (CHR '' '')) = ''Sex''"
  "str_title (str_replace ''age_group'' (CHR ''_'') (CHR '' '')) = ''Age Group''"
  "str_title (str_replace ''region'' (CHR ''_'') (CHR '' '')) = ''Region''"
  by (simp_all add: str_title_def str_replace_def to_upper_def to_lower_def is_cased_def
      lower_upper_def)

lemma INDIAN_STATES_facts:
  "length INDIAN_STATES = 30" "distinct INDIAN_STATES"
  by (simp_all add: INDIAN_STATES_def)

lemma generate_booking_regions:
  assumes "generate_booking price_of i r = Some (g, r')"
  shows "regions_bounded g"
proof -
  obtain v r1 where c1: "random_randint 5 15 r = (v, r1)"
    by (cases "random_randint 5 15 r")
  obtain u r2 where c2: "random_random r1 = (u, r2)"
    by (cases "random_random r1")
  obtain t r3 where c3:
    "random_choice [''profession'', ''sex'', ''age_group'', ''region''] r2 = (t, r3)"
    by (cases "random_choice [''profession'', ''sex'', ''age_group'', ''region''] r2")
  obtain sel r4 where c4:
    "random_sample INDIAN_STATES (min (length INDIAN_STATES) 3) r3 = Some (sel, r4)"
    using assms by (auto simp: generate_booking_def c1 c2 c3 split: option.splits)
  obtain av r5 where c5:
    "(if t = ''profession'' then random_choice PROFESSIONS r4
      else if t = ''sex'' then random_choice SEXES r4
      else if t = ''age_group'' then random_choice AGE_GROUPS r4
      else random_choice INDIAN_STATES r4) = (av, r5)"
    by (metis prod.collapse)
  obtain ps r6 where c6: "make_passengers (nat v) t av sel r5 = (ps, r6)"
    by (cases "make_passengers (nat v) t av sel r5")
  let ?b = "\<lparr>booking_id = i, volume = v, price_per_seat = price_of u,
           anchor_type = str_title (str_replace t (CHR ''_'') (CHR '' '')),
           anchor_value = av, passengers = ps\<rparr>"
  have g: "g = (?b, sel, r4)"
    using assms by (simp add: generate_booking_def c1 c2 c3 c4 c5 c6)
  have t: "t \<in> set [''profession'', ''sex'', ''age_group'', ''region'']"
    using random_choice_in_set [of "[''profession'', ''sex'', ''age_group'', ''region'']" r2] c3
    by simp
  have c4': "random_sample INDIAN_STATES 3 r3 = Some (sel, r4)"
    using c4 by (simp add: INDIAN_STATES_facts)
  have sel: "length sel = 3" "set sel \<subseteq> set INDIAN_STATES" "distinct sel"
    using random_sample_large [OF c4'] by (simp_all add: INDIAN_STATES_facts)
  have fin: "card (set sel) \<le> 3"
    using card_length [of sel] sel(1) by simp
  show ?thesis
  proof (cases "t = ''region''")
    case True
    have av: "av = fst (random_choice INDIAN_STATES r4)"
      using c5 True by simp
    have av_in: "av \<in> set INDIAN_STATES"
      unfolding av by (rule random_choice_in_set) (simp add: INDIAN_STATES_def)
    have all: "list_all (\<lambda>p. region p = av) ps"
      using make_passengers_anchored [of av "nat v" sel r5] c6 True by simp
    then have "region ` set ps \<subseteq> {av}"
      by (auto simp: list_all_iff)
    then have "card (region ` set ps) \<le> card {av}"
      by (intro card_mono) simp_all
    then have "card (region ` set ps) \<le> 3" by simp
    then show ?thesis
      using True sel av [symmetric] av_in all by (simp add: regions_bounded_def g anchor_titles)
  next
    case False
    have ne: "sel \<noteq> []" using sel(1) by auto
    have all: "list_all (\<lambda>p. region p \<in> set sel) ps"
      using make_passengers_selected [OF False ne, of "nat v" av r5] c6 by simp
    then have "region ` set ps \<subseteq> set sel"
      by (auto simp: list_all_iff)
    then have "card (region ` set ps) \<le> card (set sel)"
      by (intro card_mono) simp_all
    then have c: "card (region ` set ps) \<le> 3" using fin by simp
    have "str_title (str_replace t (CHR ''_'') (CHR '' '')) \<noteq> ''Region''"
      using t False by (auto simp: anchor_titles)
    then show ?thesis
      using sel all c by (simp add: regions_bounded_def g)
  qed
qed

lemma generate_from_regions:
  "generate_from price_of n i r = Some (gs, r') \<Longrightarrow> length gs = n \<and> list_all regions_bounded gs"
proof (induction n arbitrary: i r gs r')
  case 0
  then show ?case by simp
next
  case (Suc n)
  obtain g r1 where b: "generate_booking price_of i r = Some (g, r1)"
    using Suc.prems by (auto split: option.splits)
  obtain gs1 where f: "generate_from price_of n (i + 1) r1 = Some (gs1, r')" and gs: "gs = g # gs1"
    using Suc.prems b by (auto split: option.splits)
  show ?case
    using generate_booking_regions [OF b] Suc.IH [OF f] gs by simp
qed

text \<open>
  C8, amended. Whenever the generator returns, it returns 15 bookings, and each of them
  comes with three different pre-selected regions. A booking anchored on the region has
  as anchor value the choice made among all the regions, with no regard to the
  pre-selected ones, and every passenger has it as region; in every other booking each
  passenger's region is one of the pre-selected three. In both cases the passengers of
  one booking have at most three regions.
\<close>

theorem generate_bookings_regions:
  assumes "generate_bookings price_of r = Some (bs, r')"
  shows "length bs = 15
         \<and> (\<exists>gs. generate_from price_of TOTAL_BOOKINGS_PER_GAME 0 r = Some (gs, r')
                 \<and> bs = map fst gs \<and> list_all regions_bounded gs)"
proof -
  obtain gs where f: "generate_from price_of TOTAL_BOOKINGS_PER_GAME 0 r = Some (gs, r')"
    and bs: "bs = map fst gs"
    using assms by (auto simp: generate_bookings_def split: option.splits)
  have "length gs = TOTAL_BOOKINGS_PER_GAME \<and> list_all regions_bounded gs"
    using generate_from_regions [OF f] .
  then show ?thesis
    using f bs by (auto simp: TOTAL_BOOKINGS_PER_GAME_def)
qed

subsection \<open>A source under which the generator returns\<close>

lemma src_kept [simp]:
  "src (snd (next_draw r)) = src r"
  "src (snd (randbelow n r)) = src r"
  "src (snd (random_random r)) = src r"
  "src (snd (random_randint a b r)) = src r"
  "src (snd (random_choice seq r)) = src r"
  by (simp_all add: next_draw_def randbelow_def random_random_def random_randint_def
      random_choice_def)

lemma passenger_profile_src [simp]: "src (snd (passenger_profile t v sel r)) = src r"
proof -
  have k: "src (snd (if c then (x, q) else random_choice seq q)) = src q" for c x q
    and seq :: "string list"
    by simp
  show ?thesis
    by (simp add: passenger_profile_def split_beta k)
qed

lemma make_passengers_src [simp]: "src (snd (make_passengers n t v sel r)) = src r"
proof (induction n arbitrary: r)
  case 0
  show ?case by simp
next
  case (Suc n)
  show ?case
    using Suc.IH [of "snd (passenger_profile t v sel r)"]
    by (simp add: split_beta)
qed

text \<open>Three draws in a row of a counting source are three different indices below 30.\<close>

lemma mod30_differ:
  "Suc p mod 30 \<noteq> p mod 30" "Suc (Suc p) mod 30 \<noteq> Suc p mod 30"
  "Suc (Suc p) mod 30 \<noteq> p mod 30"
  by (auto simp: mod_Suc)

lemma sample_selected_counting:
  assumes "src r = (\<lambda>n. n)" and "length population = 30"
  shows "\<exists>result r'. sample_selected population 3 [] r = Some (result, r') \<and> src r' = (\<lambda>n. n)"
proof -
  define p where "p = pos r"
  define r1 where "r1 = r\<lparr>pos := Suc p\<rparr>"
  define r2 where "r2 = r\<lparr>pos := Suc (Suc p)\<rparr>"
  define r3 where "r3 = r\<lparr>pos := Suc (Suc (Suc p))\<rparr>"
  have d: "src r x = x" for x using assms(1) by simp
  have b1: "randbelow (length population) r = (p mod 30, r1)"
    by (simp add: randbelow_def next_draw_def d assms(2) p_def r1_def)
  have b2: "randbelow (length population) r1 = (Suc p mod 30, r2)"
    by (simp add: randbelow_def next_draw_def d assms(2) r1_def r2_def)
  have b3: "randbelow (length population) r2 = (Suc (Suc p) mod 30, r3)"
    by (simp add: randbelow_def next_draw_def d assms(2) r2_def r3_def)
  have f1: "redraw (length population) [] (p mod 30) r1 = Some (p mod 30, r1)"
    by (rule redraw_fresh) simp
  have f2: "redraw (length population) [p mod 30] (Suc p mod 30) r2 = Some (Suc p mod 30, r2)"
    by (rule redraw_fresh) (simp add: mod30_differ)
  have f3: "redraw (length population) [Suc p mod 30, p mod 30] (Suc (Suc p) mod 30) r3 =
      Some (Suc (Suc p) mod 30, r3)"
    by (rule redraw_fresh) (simp add: mod30_differ)
  have s0: "sample_selected population 0 [Suc (Suc p) mod 30, Suc p mod 30, p mod 30] r3 =
      Some ([], r3)"
    by simp
  have s1: "sample_selected population (Suc 0) [Suc p mod 30, p mod 30] r2 =
      Some ([population ! (Suc (Suc p) mod 30)], r3)"
    unfolding sample_selected.simps b3 by (simp only: prod.case f3 option.case s0)
  have s2: "sample_selected population (Suc (Suc 0)) [p mod 30] r1 =
      Some ([population ! (Suc p mod 30), population ! (Suc (Suc p) mod 30)], r3)"
    unfolding sample_selected.simps(2) [of population "Suc 0"] b2
    by (simp only: prod.case f2 option.case s1)
  have s3: "sample_selected population (Suc (Suc (Suc 0))) [] r =
      Some ([population ! (p mod 30), population ! (Suc p mod 30),
             population ! (Suc (Suc p) mod 30)], r3)"
    unfolding sample_selected.simps(2) [of population "Suc (Suc 0)"] b1
    by (simp only: prod.case f1 option.case s2)
  have "src r3 = (\<lambda>n. n)" using assms(1) by (simp add: r3_def)
  then show ?thesis
    using s3 by (simp only: numeral_3_eq_3) blast
qed

lemma generate_booking_counting:
  assumes "src r = (\<lambda>n. n)"
  shows "\<exists>g r'. generate_booking price_of i r = Some (g, r') \<and> src r' = (\<lambda>n. n)"
proof -
  obtain v r1 where c1: "random_randint 5 15 r = (v, r1)"
    by (cases "random_randint 5 15 r")
  obtain u r2 where c2: "random_random r1 = (u, r2)"
    by (cases "random_random r1")
  obtain t r3 where c3:
    "random_choice [''profession'', ''sex'', ''age_group'', ''region''] r2 = (t, r3)"
    by (cases "random_choice [''profession'', ''sex'', ''age_group'', ''region''] r2")
  have s1: "src r1 = src r" using src_kept(4) [of 5 15 r] c1 by simp
  have s2: "src r2 = src r1" using src_kept(3) [of r1] c2 by simp
  have s3: "src r3 = src r2"
    using src_kept(5) [of "[''profession'', ''sex'', ''age_group'', ''region'']" r2] c3 by simp
  have "src r3 = (\<lambda>n. n)" using assms s1 s2 s3 by simp
  then obtain sel r4 where c4: "sample_selected INDIAN_STATES 3 [] r3 = Some (sel, r4)"
    and s4: "src r4 = (\<lambda>n. n)"
    using sample_selected_counting [of r3 INDIAN_STATES] by (auto simp: INDIAN_STATES_facts)
  have c4': "random_sample INDIAN_STATES (min (length INDIAN_STATES) 3) r3 = Some (sel, r4)"
    using c4 by (simp add: random_sample_def INDIAN_STATES_facts)
  obtain av r5 where c5:
    "(if t = ''profession'' then random_choice PROFESSIONS r4
      else if t = ''sex'' then random_choice SEXES r4
      else if t = ''age_group'' then random_choice AGE_GROUPS r4
      else random_choice INDIAN_STATES r4) = (av, r5)"
    by (metis prod.collapse)
  have "src (snd (if t = ''profession'' then random_choice PROFESSIONS r4
      else if t = ''sex'' then random_choice SEXES r4
      else if t = ''age_group'' then random_choice AGE_GROUPS r4
      else random_choice INDIAN_STATES r4)) = src r4"
    by simp
  then have s5: "src r5 = src r4" using c5 by simp
  obtain ps r6 where c6: "make_passengers (nat v) t av sel r5 = (ps, r6)"
    by (cases "make_passengers (nat v) t av sel r5")
  have s6: "src r6 = src r5"
    using make_passengers_src [of "nat v" t av sel r5] c6 by simp
  have "generate_booking price_of i r =
      Some ((\<lparr>booking_id = i, volume = v, price_per_seat = price_of u,
           anchor_type = str_title (str_replace t (CHR ''_'') (CHR '' '')),
           anchor_value = av, passengers = ps\<rparr>, sel, r4), r6)"
    by (simp add: generate_booking_def c1 c2 c3 c4' c5 c6)
  then show ?thesis using s4 s5 s6 by simp
qed

lemma generate_from_counting:
  "src r = (\<lambda>n. n) \<Longrightarrow> \<exists>gs r'. generate_from price_of n i r = Some (gs, r')"
proof (induction n arbitrary: i r)
  case 0
  show ?case by simp
next
  case (Suc n)
  obtain g r1 where b: "generate_booking price_of i r = Some (g, r1)" and s: "src r1 = (\<lambda>n. n)"
    using generate_booking_counting [OF Suc.prems] by blast
  obtain gs r2 where f: "generate_from price_of n (i + 1) r1 = Some (gs, r2)"
    using Suc.IH [OF s] by blast
  show ?case by (simp add: b f)
qed

lemma generate_bookings_counting:
  "\<exists>bs r'. generate_bookings price_of counting_source = Some (bs, r')"
proof -
  have "src counting_source = (\<lambda>n. n)" by (simp add: counting_source_def)
  then obtain gs r' where
    "generate_from price_of TOTAL_BOOKINGS_PER_GAME 0 counting_source = Some (gs, r')"
    using generate_from_counting by blast
  then show ?thesis by (simp add: generate_bookings_def)
qed

theorem generate_bookings_regions_witness:
  "\<exists>bs r'. generate_bookings flat_price counting_source = Some (bs, r')
      \<and> length bs = 15
      \<and> (\<exists>gs. generate_from flat_price TOTAL_BOOKINGS_PER_GAME 0 counting_source = Some (gs, r')
              \<and> bs = map fst gs \<and> list_all regions_bounded gs)"
proof -
  obtain bs r' where g: "generate_bookings flat_price counting_source = Some (bs, r')"
    using generate_bookings_counting by blast
  show ?thesis
    using g generate_bookings_regions [OF g] by blast
qed

lemma sample_selected_numeral:
  "sample_selected population (numeral k) selected r =
     (case randbelow (length population) r of (j0, r0) \<Rightarrow>
        (case redraw (length population) selected j0 r0 of
           None \<Rightarrow> None
         | Some (j, r') \<Rightarrow>
             (case sample_selected population (pred_numeral k) (j # selected) r' of
                None \<Rightarrow> None
              | Some (result, r'') \<Rightarrow> Some (population ! j # result, r''))))"
  by (simp add: numeral_eq_Suc)

lemma make_passengers_numeral:
  "make_passengers (numeral n) t v sel r =
     (case passenger_profile t v sel r of (p, r') \<Rightarrow>
        (case make_passengers (pred_numeral n) t v sel r' of (ps, r'') \<Rightarrow> (p # ps, r'')))"
  by (simp add: numeral_eq_Suc)

text \<open>
  C8, as claimed, fails: the booking generated from the example source is anchored on the
  region, and its anchor value is none of the three regions pre-selected for it.
\<close>

theorem generate_booking_region_anchor_counterexample:
  "(case generate_booking flat_price 0 region_anchor_source of
      None \<Rightarrow> False
    | Some ((b, selected_regions, r_anchor), r') \<Rightarrow>
        anchor_type b = ''Region'' \<and> anchor_value b = ''Haryana''
        \<and> selected_regions = [''Andhra Pradesh'', ''Arunachal Pradesh'', ''Assam'']
        \<and> anchor_value b \<notin> set selected_regions
        \<and> map region (passengers b) =
            [''Haryana'', ''Haryana'', ''Haryana'', ''Haryana'', ''Haryana''])"
  by (simp add: generate_booking_def region_anchor_source_def random_randint_def
      random_random_def random_choice_def randbelow_def next_draw_def random_sample_def
      sample_selected_numeral redraw_fresh make_passengers_numeral passenger_profile_def
      INDIAN_STATES_def PROFESSIONS_def SEXES_def AGE_GROUPS_def anchor_titles)

end
